theory Spec2Isabelle
  imports Complex_Main
begin

section \<open>JSON values (the jsonb column of src/lib/db/separate-schema.ts)\<close>

text \<open>
  The column \<open>metadata\<close> of the table \<open>embeddings\<close> is \<open>jsonb\<close>: a row carries the parsed
  JSON value, and the job store keeps it in its own \<open>jsonb\<close> columns. An object is the
  list of its members in the order in which the object enumerates them, with distinct
  keys. Numbers are taken to be whole (a year, a chunk index) and below \<open>10^21\<close> in
  size, so that their text is their decimal digits.
\<close>

datatype json =
    JNull | JBool bool | JNum int | JStr string | JArr "json list" | JObj "(string \<times> json) list"

section \<open>The job store (src/lib/db/jobs, schema in src/lib/db/jobs-schema.ts)\<close>

text \<open>
  The table \<open>query_jobs\<close> is a list of rows. Timestamps are milliseconds since the
  epoch (\<open>int\<close>); \<open>new Date()\<close> is the argument \<open>now\<close> of every operation. A nullable
  column is an \<open>option\<close>. The column \<open>params\<close> is written at creation only; of its
  members only \<open>enableVerification\<close> is read again (by the status endpoint), and it
  alone is kept.
\<close>

datatype job_status = Pending | Processing | Completed | Failed

record source_entry =
  src_index :: nat
  src_content :: string
  src_similarity :: real
  src_metadata :: json

record display_chunk =
  dc_index :: nat
  dc_content :: string
  dc_id :: int
  dc_similarity :: real
  dc_metadata :: json
  usedInContext :: bool
  citedInResponse :: "bool option"

record query_job =
  job_id :: string
  status :: job_status
  params_enableVerification :: bool
  progress :: "string option"
  response :: "string option"
  sources :: "source_entry list option"
  allMatchingChunks :: "display_chunk list option"
  confidence :: "string option"
  error :: "string option"
  createdAt :: int
  startedAt :: "int option"
  completedAt :: "int option"
  expiresAt :: int

type_synonym jobs_table = "query_job list"

text \<open>
  The object handed to \<open>.set(...)\<close>: one optional entry per column. The query builder
  skips an entry that is \<open>undefined\<close>, so \<open>None\<close> leaves the column as it is.
\<close>

record update_data =
  set_status :: "job_status option"
  set_progress :: "string option"
  set_response :: "string option"
  set_sources :: "source_entry list option"
  set_allMatchingChunks :: "display_chunk list option"
  set_confidence :: "string option"
  set_error :: "string option"
  set_startedAt :: "int option"
  set_completedAt :: "int option"

definition no_update :: update_data where
  "no_update = \<lparr> set_status = None, set_progress = None, set_response = None,
     set_sources = None, set_allMatchingChunks = None, set_confidence = None,
     set_error = None, set_startedAt = None, set_completedAt = None \<rparr>"

definition set_column :: "'a option \<Rightarrow> 'a option \<Rightarrow> 'a option" where
  "set_column new old = (case new of None \<Rightarrow> old | Some v \<Rightarrow> Some v)"

definition apply_set :: "update_data \<Rightarrow> query_job \<Rightarrow> query_job" where
  "apply_set u j = j \<lparr>
     status := (case set_status u of None \<Rightarrow> status j | Some s \<Rightarrow> s),
     progress := set_column (set_progress u) (progress j),
     response := set_column (set_response u) (response j),
     sources := set_column (set_sources u) (sources j),
     allMatchingChunks := set_column (set_allMatchingChunks u) (allMatchingChunks j),
     confidence := set_column (set_confidence u) (confidence j),
     error := set_column (set_error u) (error j),
     startedAt := set_column (set_startedAt u) (startedAt j),
     completedAt := set_column (set_completedAt u) (completedAt j) \<rparr>"

text \<open>\<open>update(queryJobs).set(u).where(eq(queryJobs.id, jobId))\<close>\<close>

definition db_update :: "update_data \<Rightarrow> string \<Rightarrow> jobs_table \<Rightarrow> jobs_table" where
  "db_update u jobId tbl = map (\<lambda>j. if job_id j = jobId then apply_set u j else j) tbl"

text \<open>\<open>select().from(queryJobs).where(eq(queryJobs.id, jobId)).limit(1)\<close>\<close>

definition getQueryJob :: "string \<Rightarrow> jobs_table \<Rightarrow> query_job option" where
  "getQueryJob jobId tbl = find (\<lambda>j. job_id j = jobId) tbl"

text \<open>
  \<open>updateJobProgress\<close>: \<open>updateData\<close> starts as \<open>{status, progress}\<close>. The test
  \<open>!updateData.startedAt\<close> reads the object just built, whose \<open>startedAt\<close> is still
  undefined, so it is written as \<open>set_startedAt upd0 = None\<close> on that object. \<open>if (error)\<close> is
  JavaScript truthiness: an absent or empty string is not written.
\<close>

definition updateJobProgress ::
  "int \<Rightarrow> string \<Rightarrow> job_status \<Rightarrow> string option \<Rightarrow> string option \<Rightarrow> jobs_table \<Rightarrow> jobs_table"
where
  "updateJobProgress now jobId st prog err tbl =
    (let upd0 = no_update \<lparr> set_status := Some st, set_progress := prog \<rparr>;
         upd1 = (if st = Processing \<and> set_startedAt upd0 = None
                 then upd0 \<lparr> set_startedAt := Some now \<rparr> else upd0);
         upd2 = (if st = Completed \<or> st = Failed
                 then upd1 \<lparr> set_completedAt := Some now \<rparr> else upd1);
         upd3 = (if err \<noteq> None \<and> err \<noteq> Some []
                 then upd2 \<lparr> set_error := err \<rparr> else upd2)
     in db_update upd3 jobId tbl)"

text \<open>
  \<open>storeJobResults\<close>: the argument \<open>results\<close>; \<open>verified\<close> is accepted and not written to
  any column. \<open>confidence\<close> is a number, stored as \<open>confidence?.toString()\<close>: for a
  natural number below \<open>10^21\<close> its decimal digits.
\<close>

function decimal :: "nat \<Rightarrow> string" where
  "decimal n = (if n < 10 then [char_of (48 + n)] else decimal (n div 10) @ [char_of (48 + n mod 10)])"
  by pat_completeness auto
termination
  by (relation "measure id") auto

declare decimal.simps [simp del]

record job_results =
  res_response :: string
  res_sources :: "source_entry list"
  res_allMatchingChunks :: "display_chunk list option"
  res_confidence :: "nat option"
  res_verified :: "bool option"

definition storeJobResults :: "int \<Rightarrow> string \<Rightarrow> job_results \<Rightarrow> jobs_table \<Rightarrow> jobs_table" where
  "storeJobResults now jobId results tbl =
     db_update (no_update \<lparr> set_status := Some Completed,
                  set_response := Some (res_response results),
                  set_sources := Some (res_sources results),
                  set_allMatchingChunks := res_allMatchingChunks results,
                  set_confidence := map_option decimal (res_confidence results),
                  set_completedAt := Some now \<rparr>) jobId tbl"

definition markJobFailed :: "int \<Rightarrow> string \<Rightarrow> string \<Rightarrow> jobs_table \<Rightarrow> jobs_table" where
  "markJobFailed now jobId err tbl =
     db_update (no_update \<lparr> set_status := Some Failed, set_error := Some err,
                  set_completedAt := Some now \<rparr>) jobId tbl"

text \<open>
  \<open>cleanupExpiredJobs\<close>: \<open>delete(queryJobs).where(eq(queryJobs.expiresAt, now))\<close>; the
  result is the table left and \<open>rowCount || 0\<close>.
\<close>

definition cleanupExpiredJobs :: "int \<Rightarrow> jobs_table \<Rightarrow> jobs_table \<times> nat" where
  "cleanupExpiredJobs now tbl =
     (filter (\<lambda>j. \<not> expiresAt j = now) tbl, length (filter (\<lambda>j. expiresAt j = now) tbl))"

text \<open>The calls a caller can make on the store, and a run of them.\<close>

datatype job_op =
    UpdateJobProgress int string job_status "string option" "string option"
  | StoreJobResults int string job_results
  | MarkJobFailed int string string

fun op_target :: "job_op \<Rightarrow> string" where
  "op_target (UpdateJobProgress now jobId st prog err) = jobId"
| "op_target (StoreJobResults now jobId results) = jobId"
| "op_target (MarkJobFailed now jobId err) = jobId"

fun run_op :: "job_op \<Rightarrow> jobs_table \<Rightarrow> jobs_table" where
  "run_op (UpdateJobProgress now jobId st prog err) tbl = updateJobProgress now jobId st prog err tbl"
| "run_op (StoreJobResults now jobId results) tbl = storeJobResults now jobId results tbl"
| "run_op (MarkJobFailed now jobId err) tbl = markJobFailed now jobId err tbl"

fun run_ops :: "job_op list \<Rightarrow> jobs_table \<Rightarrow> jobs_table" where
  "run_ops [] tbl = tbl"
| "run_ops (x # xs) tbl = run_ops xs (run_op x tbl)"

definition terminal :: "query_job \<Rightarrow> bool" where
  "terminal j \<longleftrightarrow> status j = Completed \<or> status j = Failed"

text \<open>A fresh row as \<open>createQueryJob\<close> inserts it at time \<open>now\<close>, with the
  \<open>enableVerification\<close> of its parameters: the schema defaults and
  \<open>expiresAt = now + 3600000\<close>.\<close>

definition new_job :: "string \<Rightarrow> int \<Rightarrow> bool \<Rightarrow> query_job" where
  "new_job jid now enableVerification =
   \<lparr> job_id = jid, status = Pending, params_enableVerification = enableVerification,
     progress = None, response = None,
     sources = None, allMatchingChunks = None, confidence = None, error = None,
     createdAt = now, startedAt = None, completedAt = None, expiresAt = now + 3600000 \<rparr>"


section \<open>Retrieval (netlify/functions/query.ts and its background twin)\<close>

text \<open>
  Both files carry the same \<open>estimateTokens\<close>, \<open>applyTokenLimit\<close>, \<open>findSimilarEmbeddings\<close>
  and context-building code; one model serves both. Strings are ASCII texts, so that the
  length of a \<open>string\<close> is JavaScript's \<open>.length\<close>.
\<close>

subsection \<open>Fused score\<close>

text \<open>
  The SQL expressions that \<open>findSimilarEmbeddings\<close> selects, over the reals: \<open>distance\<close> is the
  cosine distance \<open>embedding <=> query\<close>, \<open>raw\<close> is \<open>paradedb.score(id)\<close>.
\<close>

definition vectorScore_sql :: "real \<Rightarrow> real" where
  "vectorScore_sql distance = 1 - distance"

definition bm25Score_sql :: "real \<Rightarrow> real" where
  "bm25Score_sql raw = min (raw / 10.0) 1.0"

definition similarityCalc :: "real \<Rightarrow> real \<Rightarrow> real \<Rightarrow> real \<Rightarrow> real" where
  "similarityCalc vectorWeight textWeight distance raw =
     (if vectorWeight = 0 then bm25Score_sql raw
      else if textWeight = 0 then vectorScore_sql distance
      else vectorWeight * vectorScore_sql distance + textWeight * bm25Score_sql raw)"

subsection \<open>Rows and metadata\<close>

record db_row =
  content :: string
  metadata :: json
  vectorScore :: real
  bm25Score :: real
  similarity :: real

record match_row =
  m_id :: int
  m_content :: string
  m_metadata :: json
  m_similarity :: real

fun truthy :: "json \<Rightarrow> bool" where
  "truthy JNull = False"
| "truthy (JBool b) = b"
| "truthy (JNum n) = (n \<noteq> 0)"
| "truthy (JStr s) = (s \<noteq> [])"
| "truthy (JArr items) = True"
| "truthy (JObj members) = True"

text \<open>
  \<open>parseMetadata\<close>: a falsy value gives \<open>{}\<close>, an object (or array) is returned as it is,
  a string goes through \<open>JSON.parse\<close>, with \<open>{}\<close> when that throws; anything else gives
  \<open>{}\<close>. \<open>JSON.parse\<close> belongs to the runtime and is the parameter \<open>JSON_parse\<close>
  (\<open>None\<close>: it throws).
\<close>

definition parseMetadata :: "(string \<Rightarrow> json option) \<Rightarrow> json \<Rightarrow> json" where
  "parseMetadata JSON_parse m =
     (if \<not> truthy m then JObj []
      else case m of
             JObj members \<Rightarrow> m
           | JArr items \<Rightarrow> m
           | JStr s \<Rightarrow> (case JSON_parse s of Some v \<Rightarrow> v | None \<Rightarrow> JObj [])
           | _ \<Rightarrow> JObj [])"

text \<open>\<open>metadata.pmid\<close>: reading a member of \<open>null\<close> (the text \<open>null\<close> parsed) throws a
  TypeError; a value that is not an object has no such member.\<close>

definition read_pmid :: "json \<Rightarrow> string + json option" where
  "read_pmid v =
     (case v of
        JNull \<Rightarrow> Inl ''Cannot read properties of null (reading 'pmid')''
      | JObj members \<Rightarrow> Inr (map_of members ''pmid'')
      | _ \<Rightarrow> Inr None)"

text \<open>\<open>parseMetadata(m).pmid || dflt\<close>\<close>

definition pmid_or :: "string \<Rightarrow> (string \<Rightarrow> json option) \<Rightarrow> json \<Rightarrow> string + json" where
  "pmid_or dflt JSON_parse m =
     (case read_pmid (parseMetadata JSON_parse m) of
        Inl e \<Rightarrow> Inl e
      | Inr None \<Rightarrow> Inr (JStr dflt)
      | Inr (Some v) \<Rightarrow> Inr (if truthy v then v else JStr dflt))"

text \<open>\<open>Set.prototype.has\<close>: primitives are compared by value; an object or array taken
  from one row's metadata is no element put there from another row's.\<close>

definition same_value :: "json \<Rightarrow> json \<Rightarrow> bool" where
  "same_value a b = (case a of JArr items \<Rightarrow> False | JObj members \<Rightarrow> False | _ \<Rightarrow> a = b)"

fun join :: "string \<Rightarrow> string list \<Rightarrow> string" where
  "join sep [] = []"
| "join sep [x] = x"
| "join sep (x # y # zs) = x @ sep @ join sep (y # zs)"

definition show_int :: "int \<Rightarrow> string" where
  "show_int n = (if n < 0 then CHR ''-'' # decimal (nat (- n)) else decimal (nat n))"

text \<open>The property key a value is turned into when it indexes an object.\<close>

fun to_property_key :: "json \<Rightarrow> string" where
  "to_property_key JNull = ''null''"
| "to_property_key (JBool b) = (if b then ''true'' else ''false'')"
| "to_property_key (JNum n) = show_int n"
| "to_property_key (JStr s) = s"
| "to_property_key (JArr items) =
     join '','' (map (\<lambda>v. if v = JNull then [] else to_property_key v) items)"
| "to_property_key (JObj members) = ''[object Object]''"

subsection \<open>Token estimate of a serialized chunk\<close>

definition estimateTokens :: "string \<Rightarrow> nat" where
  "estimateTokens text = (length text + 3) div 4"

definition hex_digit :: "nat \<Rightarrow> char" where
  "hex_digit n = ''0123456789abcdef'' ! (n mod 16)"

text \<open>\<open>JSON.stringify\<close> of a string: quote, backslash and control characters escaped.\<close>

definition json_escape :: "char \<Rightarrow> string" where
  "json_escape c =
     (if c = CHR 0x22 then [CHR 0x5C, CHR 0x22]
      else if c = CHR 0x5C then [CHR 0x5C, CHR 0x5C]
      else if c = CHR 0x08 then [CHR 0x5C, CHR ''b'']
      else if c = CHR 0x09 then [CHR 0x5C, CHR ''t'']
      else if c = CHR 0x0A then [CHR 0x5C, CHR ''n'']
      else if c = CHR 0x0C then [CHR 0x5C, CHR ''f'']
      else if c = CHR 0x0D then [CHR 0x5C, CHR ''r'']
      else if (of_char c :: nat) < 32
        then [CHR 0x5C, CHR ''u'', CHR ''0'', CHR ''0'',
              hex_digit ((of_char c :: nat) div 16), hex_digit (of_char c)]
      else [c])"

definition json_string :: "string \<Rightarrow> string" where
  "json_string s = [CHR 0x22] @ concat (map json_escape s) @ [CHR 0x22]"

text \<open>\<open>JSON.stringify\<close> of a value, members in the order the object has them.\<close>

fun stringify :: "json \<Rightarrow> string" where
  "stringify JNull = ''null''"
| "stringify (JBool b) = (if b then ''true'' else ''false'')"
| "stringify (JNum n) = show_int n"
| "stringify (JStr s) = json_string s"
| "stringify (JArr items) = ''['' @ join '','' (map stringify items) @ '']''"
| "stringify (JObj members) =
     ''{'' @ join '','' (map (\<lambda>(k, v). json_string k @ '':'' @ stringify v) members) @ ''}''"

text \<open>\<open>JSON.stringify({content: chunk.content, metadata: chunk.metadata})\<close>\<close>

definition stringify_chunk :: "db_row \<Rightarrow> string" where
  \<open>stringify_chunk chunk =
     ''{"content":'' @ json_string (content chunk) @ '',"metadata":'' @
     stringify (metadata chunk) @ ''}''\<close>

definition chunkTokens :: "db_row \<Rightarrow> nat" where
  "chunkTokens chunk = estimateTokens (stringify_chunk chunk)"

subsection \<open>applyTokenLimit\<close>

text \<open>
  The rows of one query result are distinct objects, so \<open>selectedChunks.includes(chunk)\<close>
  is membership of the row's position; rows travel with their position. The loop state is
  \<open>(selectedChunks, seenPapers, totalTokens)\<close>; \<open>break\<close> returns the state, a TypeError
  from reading the pmid leaves the function.
\<close>

type_synonym limit_state = "(nat \<times> db_row) list \<times> json list \<times> nat"

fun first_pass ::
  "(string \<Rightarrow> json option) \<Rightarrow> int \<Rightarrow> (nat \<times> db_row) list \<Rightarrow> limit_state
     \<Rightarrow> string + limit_state"
where
  "first_pass jp availableTokens [] st = Inr st"
| "first_pass jp availableTokens ((i, chunk) # rest) (selectedChunks, seenPapers, totalTokens) =
     (case pmid_or ''unknown'' jp (metadata chunk) of
        Inl e \<Rightarrow> Inl e
      | Inr pmid \<Rightarrow>
          if \<not> list_ex (same_value pmid) seenPapers then
            (if int (totalTokens + chunkTokens chunk) \<le> availableTokens
             then first_pass jp availableTokens rest
                    (selectedChunks @ [(i, chunk)], pmid # seenPapers,
                     totalTokens + chunkTokens chunk)
             else Inr (selectedChunks, seenPapers, totalTokens))
          else first_pass jp availableTokens rest (selectedChunks, seenPapers, totalTokens))"

fun second_pass :: "int \<Rightarrow> (nat \<times> db_row) list \<Rightarrow> limit_state \<Rightarrow> limit_state" where
  "second_pass availableTokens [] st = st"
| "second_pass availableTokens ((i, chunk) # rest) (selectedChunks, seenPapers, totalTokens) =
     (if i \<in> set (map fst selectedChunks)
      then second_pass availableTokens rest (selectedChunks, seenPapers, totalTokens)
      else if int (totalTokens + chunkTokens chunk) \<le> availableTokens
      then second_pass availableTokens rest
             (selectedChunks @ [(i, chunk)], seenPapers, totalTokens + chunkTokens chunk)
      else (selectedChunks, seenPapers, totalTokens))"

definition contextSummary_limit :: "string \<Rightarrow> string" where
  \<open>contextSummary_limit query = ''Research Context: Query: "'' @ query @ ''"'' @ [CHR 0x0A, CHR 0x0A]\<close>

definition availableTokens_of :: "int \<Rightarrow> string \<Rightarrow> int" where
  "availableTokens_of targetTokens query =
     targetTokens - int (estimateTokens (contextSummary_limit query)) - 500"

definition applyTokenLimit ::
  "(string \<Rightarrow> json option) \<Rightarrow> db_row list \<Rightarrow> int \<Rightarrow> string \<Rightarrow> string + db_row list"
where
  "applyTokenLimit jp results targetTokens query =
     (let availableTokens = availableTokens_of targetTokens query in
      if availableTokens \<le> 0 then Inr (take 1 results)
      else
        (let indexed = zip [0 ..< length results] results in
         case first_pass jp availableTokens indexed ([], [], 0) of
           Inl e \<Rightarrow> Inl e
         | Inr st1 \<Rightarrow> Inr (map snd (fst (second_pass availableTokens indexed st1)))))"

text \<open>The tail of \<open>findSimilarEmbeddings\<close>, after the query returned \<open>results\<close>;
  \<open>if (targetTokens)\<close> is false for an absent or zero target.\<close>

definition findSimilarEmbeddings ::
  "(string \<Rightarrow> json option) \<Rightarrow> db_row list \<Rightarrow> int option \<Rightarrow> string \<Rightarrow> string + db_row list"
where
  "findSimilarEmbeddings jp results targetTokens query =
     (case targetTokens of
        None \<Rightarrow> Inr results
      | Some t \<Rightarrow> if t = 0 then Inr results else applyTokenLimit jp results t query)"

subsection \<open>Per-document cap (handler: chunksByPaper, processedChunks)\<close>

definition is_digit :: "char \<Rightarrow> bool" where
  "is_digit c \<longleftrightarrow> 48 \<le> (of_char c :: nat) \<and> (of_char c :: nat) \<le> 57"

definition nat_of_digits :: "string \<Rightarrow> nat" where
  "nat_of_digits ds = foldl (\<lambda>a c. 10 * a + ((of_char c :: nat) - 48)) 0 ds"

text \<open>
  \<open>chunksByPaper\<close> is a plain object. Its own keys are kept in insertion order;
  \<open>Object.entries\<close> lists the keys that are array indices (canonical decimal numerals up to
  \<open>2^32 - 2\<close>) first, in ascending numeric order, then the other keys in insertion order.
  Reading \<open>chunksByPaper[pmid]\<close> for a name that \<open>Object.prototype\<close> defines finds the
  inherited value, which is truthy and has no \<open>push\<close>: the loop throws a TypeError.
\<close>

definition is_array_index :: "string \<Rightarrow> bool" where
  "is_array_index k \<longleftrightarrow>
     k \<noteq> [] \<and> list_all is_digit k \<and> (k = ''0'' \<or> take 1 k \<noteq> ''0'') \<and> nat_of_digits k \<le> 4294967294"

definition Object_entries :: "(string \<times> 'v) list \<Rightarrow> (string \<times> 'v) list" where
  "Object_entries obj =
     sort_key (\<lambda>kv. nat_of_digits (fst kv)) (filter (\<lambda>kv. is_array_index (fst kv)) obj)
     @ filter (\<lambda>kv. \<not> is_array_index (fst kv)) obj"

definition object_prototype_names :: "string list" where
  "object_prototype_names =
     [''constructor'', ''__defineGetter__'', ''__defineSetter__'', ''hasOwnProperty'',
      ''__lookupGetter__'', ''__lookupSetter__'', ''isPrototypeOf'', ''propertyIsEnumerable'',
      ''toString'', ''valueOf'', ''__proto__'', ''toLocaleString'']"

fun push_chunk :: "string \<Rightarrow> 'a \<Rightarrow> (string \<times> 'a list) list \<Rightarrow> (string \<times> 'a list) list" where
  "push_chunk k x [] = [(k, [x])]"
| "push_chunk k x ((k', xs) # rest) =
     (if k' = k then (k', xs @ [x]) # rest else (k', xs) # push_chunk k x rest)"

fun group_by_paper ::
  "(string \<Rightarrow> json option) \<Rightarrow> db_row list \<Rightarrow> (string \<times> db_row list) list
     \<Rightarrow> string + (string \<times> db_row list) list"
where
  "group_by_paper jp [] chunksByPaper = Inr chunksByPaper"
| "group_by_paper jp (emb # rest) chunksByPaper =
     (case pmid_or ''no-pmid'' jp (metadata emb) of
        Inl e \<Rightarrow> Inl e
      | Inr pmid \<Rightarrow>
          if to_property_key pmid \<in> set object_prototype_names
          then Inl ''chunksByPaper[pmid].push is not a function''
          else group_by_paper jp rest (push_chunk (to_property_key pmid) emb chunksByPaper))"

text \<open>\<open>chunks.slice(0, maxChunksPerPaper)\<close>: an absent end keeps everything, a negative
  end counts from the back.\<close>

definition slice0 :: "int option \<Rightarrow> 'a list \<Rightarrow> 'a list" where
  "slice0 stop xs =
     (case stop of None \<Rightarrow> xs
      | Some e \<Rightarrow> if 0 \<le> e then take (nat e) xs else take (nat (int (length xs) + e)) xs)"

definition processedChunks ::
  "(string \<Rightarrow> json option) \<Rightarrow> int option \<Rightarrow> db_row list \<Rightarrow> string + db_row list"
where
  "processedChunks jp maxChunksPerPaper similarEmbeddings =
     (case group_by_paper jp similarEmbeddings [] of
        Inl e \<Rightarrow> Inl e
      | Inr chunksByPaper \<Rightarrow>
          Inr (concat (map (\<lambda>(pmid, chunks). slice0 maxChunksPerPaper chunks)
                 (Object_entries chunksByPaper))))"

subsection \<open>Context assembly (handler: the loop over processedChunks)\<close>

text \<open>
  \<open>chunkText sourceIndex emb\<close> is the template \<open>`${chunkHeader}\n${chunkContent}\n`\<close>; the
  header's formatting is not modelled and comes as a parameter. The loop state is
  \<open>(context, currentTokens, sourceIndex)\<close>. The ceiling \<open>maxTokens\<close> is a number, or a value against
  which \<open>>\<close> is false for every number (\<open>None\<close>).
\<close>

fun build_context ::
  "(nat \<Rightarrow> db_row \<Rightarrow> string) \<Rightarrow> nat option \<Rightarrow> db_row list \<Rightarrow> string \<times> nat \<times> nat
     \<Rightarrow> string \<times> nat \<times> nat"
where
  "build_context chunkText maxTokens [] st = st"
| "build_context chunkText maxTokens (emb # rest) (context, currentTokens, sourceIndex) =
     (let chunkTokens = (length (chunkText sourceIndex emb) + 3) div 4 in
      if (case maxTokens of None \<Rightarrow> False
          | Some maxContextTokens \<Rightarrow> currentTokens + chunkTokens > maxContextTokens)
         \<and> length context > 0
      then (context, currentTokens, sourceIndex)
      else build_context chunkText maxTokens rest
             (context @ chunkText sourceIndex emb @ [CHR 0x0A], currentTokens + chunkTokens,
              sourceIndex + 1))"

definition context_of ::
  "(nat \<Rightarrow> db_row \<Rightarrow> string) \<Rightarrow> nat option \<Rightarrow> db_row list \<Rightarrow> string" where
  "context_of chunkText maxTokens processed =
     fst (build_context chunkText maxTokens processed ([], 0, 1))"

text \<open>The rows whose text the loop appended to \<open>context\<close>: the first \<open>sourceIndex - 1\<close>
  of \<open>processedChunks\<close>, labelled \<open>[1]\<close>, \<open>[2]\<close>, ... in the prompt.\<close>

definition sent_to_model ::
  "(nat \<Rightarrow> db_row \<Rightarrow> string) \<Rightarrow> nat option \<Rightarrow> db_row list \<Rightarrow> db_row list" where
  "sent_to_model chunkText maxTokens processed =
     take (snd (snd (build_context chunkText maxTokens processed ([], 0, 1))) - 1) processed"


section \<open>Generation, verification and the stored result\<close>

subsection \<open>verifyResponse\<close>

text \<open>
  What the verification call can come to: \<open>fetch\<close> rejects (network error, or the abort
  after the timeout); the response is not \<open>ok\<close>; the body cannot be used (\<open>json()\<close> rejects,
  or \<open>choices[0].message.content\<close> is missing or not a string, a TypeError inside the
  \<open>try\<close>); or the reply text arrives.
\<close>

datatype verification_call = FetchRejects | ResponseNotOk | BodyUnusable | Reply string

definition is_space :: "char \<Rightarrow> bool" where
  "is_space c \<longleftrightarrow> (of_char c :: nat) \<in> {9, 10, 11, 12, 13, 32}"

definition trim :: "string \<Rightarrow> string" where
  "trim s = rev (dropWhile is_space (rev (dropWhile is_space s)))"

fun after_first :: "string \<Rightarrow> string \<Rightarrow> string option" where
  "after_first pat [] = (if pat = [] then Some [] else None)"
| "after_first pat (c # cs) =
     (if take (length pat) (c # cs) = pat then Some (drop (length pat) (c # cs))
      else after_first pat cs)"

fun before_first :: "string \<Rightarrow> string \<Rightarrow> string option" where
  "before_first pat [] = (if pat = [] then Some [] else None)"
| "before_first pat (c # cs) =
     (if take (length pat) (c # cs) = pat then Some []
      else map_option (\<lambda>r. c # r) (before_first pat cs))"

text \<open>\<open>/VERIFIED_RESPONSE:\s*([\s\S]*?)CONFIDENCE:/\<close>: the capture group.\<close>

definition verifiedMatch :: "string \<Rightarrow> string option" where
  "verifiedMatch reply =
     (case after_first ''VERIFIED_RESPONSE:'' reply of
        None \<Rightarrow> None
      | Some r \<Rightarrow> before_first ''CONFIDENCE:'' (dropWhile is_space r))"

text \<open>\<open>/CONFIDENCE:\s*(\d+)/\<close>: the capture group, at the leftmost place that matches.\<close>

fun confidenceMatch :: "string \<Rightarrow> string option" where
  "confidenceMatch [] = None"
| "confidenceMatch (c # cs) =
     (if take 11 (c # cs) = ''CONFIDENCE:''
         \<and> takeWhile is_digit (dropWhile is_space (drop 11 (c # cs))) \<noteq> []
      then Some (takeWhile is_digit (dropWhile is_space (drop 11 (c # cs))))
      else confidenceMatch cs)"

text \<open>\<open>answer\<close> is the parameter \<open>response\<close>. The confidence is a natural number: \<open>parseInt\<close> of a digit string is exact below
  \<open>2^53\<close>, far above the 0 to 100 the prompt asks for.\<close>

definition verifyResponse :: "string \<Rightarrow> verification_call \<Rightarrow> string \<times> nat" where
  "verifyResponse answer call =
     (case call of
        FetchRejects \<Rightarrow> (answer, 50)
      | ResponseNotOk \<Rightarrow> (answer, 50)
      | BodyUnusable \<Rightarrow> (answer, 50)
      | Reply verificationResult \<Rightarrow>
          ((case verifiedMatch verificationResult of Some v \<Rightarrow> trim v | None \<Rightarrow> answer),
           (case confidenceMatch verificationResult of Some ds \<Rightarrow> nat_of_digits ds | None \<Rightarrow> 50)))"

subsection \<open>The result payload\<close>

fun findIndex :: "('a \<Rightarrow> bool) \<Rightarrow> 'a list \<Rightarrow> nat option" where
  "findIndex P [] = None"
| "findIndex P (x # xs) = (if P x then Some 0 else map_option Suc (findIndex P xs))"

definition sources_of :: "db_row list \<Rightarrow> source_entry list" where
  "sources_of similarEmbeddings =
     map (\<lambda>(index, emb). \<lparr> src_index = index + 1, src_content = content emb,
                           src_similarity = similarity emb, src_metadata = metadata emb \<rparr>)
         (zip [0 ..< length similarEmbeddings] similarEmbeddings)"

text \<open>\<open>matchingChunks.map(...)\<close> on the path with retrieved chunks; \<open>citedSources\<close> is the
  set that \<open>extractCitedSources\<close> returned.\<close>

definition display_chunks :: "db_row list \<Rightarrow> nat list \<Rightarrow> match_row list \<Rightarrow> display_chunk list" where
  "display_chunks similarEmbeddings citedSources matchingChunks =
     map (\<lambda>(index, chunk).
            \<lparr> dc_index = index + 1, dc_content = m_content chunk, dc_id = m_id chunk,
              dc_similarity = m_similarity chunk, dc_metadata = m_metadata chunk,
              usedInContext = list_ex (\<lambda>emb. content emb = m_content chunk) similarEmbeddings,
              citedInResponse =
                Some (case findIndex (\<lambda>emb. content emb = m_content chunk) similarEmbeddings of
                        None \<Rightarrow> False
                      | Some contextIndex \<Rightarrow> contextIndex + 1 \<in> set citedSources) \<rparr>)
         (zip [0 ..< length matchingChunks] matchingChunks)"

text \<open>The same map on the path without retrieved chunks.\<close>

definition display_chunks_unused :: "match_row list \<Rightarrow> display_chunk list" where
  "display_chunks_unused matchingChunks =
     map (\<lambda>(index, chunk).
            \<lparr> dc_index = index + 1, dc_content = m_content chunk, dc_id = m_id chunk,
              dc_similarity = m_similarity chunk, dc_metadata = m_metadata chunk,
              usedInContext = False, citedInResponse = None \<rparr>)
         (zip [0 ..< length matchingChunks] matchingChunks)"

definition no_results_message :: string where
  "no_results_message =
     ''I couldn't find any relevant information in the selected RAG dataset to answer your question.''"

definition empty_results :: "match_row list \<Rightarrow> job_results" where
  "empty_results matchingChunks =
     \<lparr> res_response = no_results_message, res_sources = [],
       res_allMatchingChunks = Some (display_chunks_unused matchingChunks),
       res_confidence = None, res_verified = None \<rparr>"

text \<open>
  From \<open>let finalResponse = initialResponse; let confidence = 85;\<close> to the payload:
  \<open>extract\<close> stands for \<open>extractCitedSources\<close>.
\<close>

definition final_results ::
  "(string \<Rightarrow> db_row list \<Rightarrow> nat list) \<Rightarrow> bool \<Rightarrow> verification_call \<Rightarrow> string
     \<Rightarrow> db_row list \<Rightarrow> match_row list \<Rightarrow> job_results"
where
  "final_results extract enableVerification call initialResponse similarEmbeddings matchingChunks =
     (let verificationResult =
            (if enableVerification then verifyResponse initialResponse call
             else (initialResponse, 85));
          finalResponse = fst verificationResult;
          confidenceValue = snd verificationResult;
          citedSources = extract finalResponse similarEmbeddings
      in \<lparr> res_response = finalResponse,
           res_sources = sources_of similarEmbeddings,
           res_allMatchingChunks = Some (display_chunks similarEmbeddings citedSources matchingChunks),
           res_confidence = Some confidenceValue,
           res_verified = Some enableVerification \<rparr>)"


subsection \<open>The background handler, from its \<open>try\<close> block on\<close>

text \<open>
  The parsed request body, and everything outside the repository that a run meets: the
  corpus registry, the embedding and completion services, the two corpus queries, the
  job store's failures and the clock. A store call that throws leaves the table as it is.
\<close>

record request_body =
  b_jobId :: string
  b_query :: string
  b_complexity :: "string option"
  b_enableVerification :: bool
  b_maxChunksPerPaper :: "int option"
  b_targetTokens :: "int option"
  b_similarityThreshold :: "real option"

record world =
  w_JSON_parse :: "string \<Rightarrow> json option"
  w_chunkText :: "nat \<Rightarrow> db_row \<Rightarrow> string"
  w_preprocessQuery :: "string \<Rightarrow> string"
  w_ragError :: "string option"
  w_embeddingError :: "string option"
  w_similarQuery :: "string + db_row list"
  w_allChunksQuery :: "string + match_row list"
  w_generateResponse :: "string \<Rightarrow> string + string"
  w_verification :: verification_call
  w_extractCitedSources :: "string \<Rightarrow> db_row list \<Rightarrow> nat list"
  w_store_throws :: "job_op \<Rightarrow> string option"
  w_clock :: "nat \<Rightarrow> int"

datatype step = Write job_op | Throw string

fun exec :: "(job_op \<Rightarrow> string option) \<Rightarrow> step list \<Rightarrow> jobs_table \<Rightarrow> string option \<times> jobs_table" where
  "exec throws [] tbl = (None, tbl)"
| "exec throws (Throw e # rest) tbl = (Some e, tbl)"
| "exec throws (Write x # rest) tbl =
     (case throws x of Some e \<Rightarrow> (Some e, tbl) | None \<Rightarrow> exec throws rest (run_op x tbl))"

text \<open>
  \<open>complexity && COMPLEXITY_SETTINGS[complexity] ? complexity : "complex"\<close>, then
  \<open>{simple: 3000, complex: 5000, interpretive: 8000}[selectedComplexity] || 5000\<close>. Both
  tables are plain objects: a name that \<open>Object.prototype\<close> defines is found in them as
  the inherited value, which is truthy, so the name is kept and the ceiling is that
  value, not a number.
\<close>

definition selectedComplexity :: "string option \<Rightarrow> string" where
  "selectedComplexity complexity =
     (case complexity of
        None \<Rightarrow> ''complex''
      | Some c \<Rightarrow>
          if c \<in> {''simple'', ''complex'', ''interpretive''} \<or> c \<in> set object_prototype_names
          then c else ''complex'')"

definition maxContextTokens :: "string \<Rightarrow> nat option" where
  "maxContextTokens c =
     (if c = ''simple'' then Some 3000 else if c = ''complex'' then Some 5000
      else if c = ''interpretive'' then Some 8000
      else if c \<in> set object_prototype_names then None else Some 5000)"

definition processing :: "world \<Rightarrow> request_body \<Rightarrow> nat \<Rightarrow> string \<Rightarrow> step" where
  "processing w b k msg = Write (UpdateJobProgress (w_clock w k) (b_jobId b) Processing (Some msg) None)"

text \<open>From \<open>if (similarEmbeddings.length === 0)\<close> to the last \<open>storeJobResults\<close>.\<close>

definition tail_steps :: "world \<Rightarrow> request_body \<Rightarrow> db_row list \<Rightarrow> match_row list \<Rightarrow> step list" where
  "tail_steps w b similarEmbeddings matchingChunks =
     (if similarEmbeddings = []
      then [Write (StoreJobResults (w_clock w 5) (b_jobId b) (empty_results matchingChunks))]
      else processing w b 5 ''Preparing context for LLM...'' #
        (case processedChunks (w_JSON_parse w) (b_maxChunksPerPaper b) similarEmbeddings of
           Inl e \<Rightarrow> [Throw e]
         | Inr processed \<Rightarrow>
             processing w b 6 ''Generating response with AI model...'' #
             (case w_generateResponse w
                     (context_of (w_chunkText w)
                        (maxContextTokens (selectedComplexity (b_complexity b))) processed) of
                Inl e \<Rightarrow> [Throw e]
              | Inr initialResponse \<Rightarrow>
                  (if b_enableVerification b
                   then [processing w b 7 ''Verifying response accuracy...''] else [])
                  @ [processing w b 8 ''Saving results...'',
                     Write (StoreJobResults (w_clock w 9) (b_jobId b)
                       (final_results (w_extractCitedSources w) (b_enableVerification b)
                          (w_verification w) initialResponse similarEmbeddings matchingChunks))])))"

text \<open>\<open>allMatchingChunks.filter(chunk => chunk.similarity > similarityThreshold)\<close>: with
  an absent threshold the comparison is false for every chunk.\<close>

definition matchingChunks_of :: "request_body \<Rightarrow> match_row list \<Rightarrow> match_row list" where
  "matchingChunks_of b allChunks =
     (case b_similarityThreshold b of
        None \<Rightarrow> []
      | Some th \<Rightarrow> filter (\<lambda>chunk. m_similarity chunk > th) allChunks)"

definition handler_steps :: "world \<Rightarrow> request_body \<Rightarrow> step list" where
  "handler_steps w b =
     processing w b 0 ''Initializing query processing...'' #
     (case w_ragError w of
        Some e \<Rightarrow> [Throw e]
      | None \<Rightarrow>
          processing w b 1 ''Preparing query for processing...'' #
          processing w b 2 ''Generating query embeddings...'' #
          (case w_embeddingError w of
             Some e \<Rightarrow> [Throw e]
           | None \<Rightarrow>
               processing w b 3 ''Searching knowledge base...'' #
               (case w_similarQuery w of
                  Inl e \<Rightarrow> [Throw e]
                | Inr results \<Rightarrow>
                    (case findSimilarEmbeddings (w_JSON_parse w) results (b_targetTokens b)
                            (w_preprocessQuery w (b_query b)) of
                       Inl e \<Rightarrow> [Throw e]
                     | Inr similarEmbeddings \<Rightarrow>
                         processing w b 4 ''Retrieving all matching content...'' #
                         (case w_allChunksQuery w of
                            Inl e \<Rightarrow> [Throw e]
                          | Inr allChunks \<Rightarrow>
                              tail_steps w b similarEmbeddings
                                (matchingChunks_of b allChunks))))))"

text \<open>The \<open>catch\<close>: one \<open>markJobFailed\<close>, whose own failure is only logged.\<close>

definition handler :: "world \<Rightarrow> request_body \<Rightarrow> jobs_table \<Rightarrow> jobs_table" where
  "handler w b tbl =
     (case exec (w_store_throws w) (handler_steps w b) tbl of
        (None, tbl') \<Rightarrow> tbl'
      | (Some msg, tbl') \<Rightarrow>
          (case w_store_throws w (MarkJobFailed (w_clock w 10) (b_jobId b) msg) of
             None \<Rightarrow> markJobFailed (w_clock w 10) (b_jobId b) msg tbl'
           | Some e \<Rightarrow> tbl'))"

subsection \<open>The synchronous endpoint, from the same point\<close>

text \<open>The status code and, for 200, the body's \<open>response\<close>, \<open>sources\<close>,
  \<open>allMatchingChunks\<close>, \<open>confidence\<close> and \<open>verified\<close> members; \<open>maxTokens\<close> is the
  context ceiling of the selected complexity.\<close>

definition query_handler_tail ::
  "world \<Rightarrow> bool \<Rightarrow> int option \<Rightarrow> nat option \<Rightarrow> db_row list \<Rightarrow> match_row list
     \<Rightarrow> nat \<times> job_results option"
where
  "query_handler_tail w enableVerification maxChunksPerPaper maxTokens similarEmbeddings matchingChunks =
     (if similarEmbeddings = [] then (200, Some (empty_results matchingChunks))
      else
        (case processedChunks (w_JSON_parse w) maxChunksPerPaper similarEmbeddings of
           Inl e \<Rightarrow> (500, None)
         | Inr processed \<Rightarrow>
             (case w_generateResponse w (context_of (w_chunkText w) maxTokens processed) of
                Inl e \<Rightarrow> (500, None)
              | Inr initialResponse \<Rightarrow>
                  (200, Some (final_results (w_extractCitedSources w) enableVerification
                     (w_verification w) initialResponse similarEmbeddings matchingChunks)))))"


section \<open>The status endpoint (netlify/functions/query-status), from the lookup on\<close>

text \<open>
  Of the body for a completed job the members \<open>response\<close>, \<open>confidence\<close> and \<open>verified\<close>
  are kept. \<open>confidence\<close> is \<open>job.confidence ? parseFloat(job.confidence) : undefined\<close>; the
  stored text is the decimal text of a whole number, so \<open>parseFloat\<close> is the number its
  leading digits spell, and \<open>NaN\<close>, serialized as \<open>null\<close>, comes out as an absent member.
\<close>

record completed_body =
  cb_response :: "string option"
  cb_confidence :: "nat option"
  cb_verified :: bool

datatype status_reply =
    NotFound_404
  | Gone_410
  | Completed_200 completed_body
  | Failed_200 string
  | Running_200 string

definition parseFloat_digits :: "string \<Rightarrow> nat option" where
  "parseFloat_digits s =
     (let ds = takeWhile is_digit (dropWhile is_space s)
      in if ds = [] then None else Some (nat_of_digits ds))"

definition query_status :: "int \<Rightarrow> string \<Rightarrow> jobs_table \<Rightarrow> status_reply" where
  "query_status now jobId tbl =
     (case getQueryJob jobId tbl of
        None \<Rightarrow> NotFound_404
      | Some job \<Rightarrow>
          if now > expiresAt job then Gone_410
          else if status job = Completed then
            Completed_200
              \<lparr> cb_response = response job,
                cb_confidence =
                  (case confidence job of
                     None \<Rightarrow> None
                   | Some c \<Rightarrow> if c = [] then None else parseFloat_digits c),
                cb_verified = params_enableVerification job \<rparr>
          else if status job = Failed then
            Failed_200 (case error job of
                          None \<Rightarrow> ''Query processing failed''
                        | Some e \<Rightarrow> if e = [] then ''Query processing failed'' else e)
          else
            Running_200 (case progress job of
                           None \<Rightarrow> ''Processing query...''
                         | Some p \<Rightarrow> if p = [] then ''Processing query...'' else p))"


section \<open>Submission guard: validateAndSanitizeInput\<close>

text \<open>
  The parsed JSON body. A text member is absent or a string, a numeric knob is absent
  (\<open>undefined\<close>) or a JSON number, taken as a real; \<open>enableVerification\<close> is the truthiness
  of the member. \<open>None\<close> for the whole input is a body that is not an object.
\<close>

record raw_input =
  in_ragId :: "string option"
  in_query :: "string option"
  in_model :: "string option"
  in_complexity :: "string option"
  in_retrievalStrategy :: "string option"
  in_enableVerification :: bool
  in_maxChunksPerPaper :: "real option"
  in_targetTokens :: "real option"
  in_similarityThreshold :: "real option"
  in_vectorWeight :: "real option"
  in_textWeight :: "real option"
  in_outputStyle :: "string option"

record sanitized_input =
  ragId :: "string option"
  query :: "string option"
  model :: "string option"
  complexity :: "string option"
  retrievalStrategy :: "string option"
  enableVerification :: bool
  maxChunksPerPaper :: int
  targetTokens :: int
  similarityThreshold :: real
  vectorWeight :: real
  textWeight :: real
  outputStyle :: "string option"

definition MAX_TARGET_TOKENS :: int where "MAX_TARGET_TOKENS = 10000"
definition MIN_TARGET_TOKENS :: int where "MIN_TARGET_TOKENS = 100"
definition MAX_QUERY_LENGTH :: nat where "MAX_QUERY_LENGTH = 1000"
definition DEFAULT_TARGET_TOKENS :: int where "DEFAULT_TARGET_TOKENS = 1500"

text \<open>
  \<open>parseInt\<close> of a number goes through its string. Between \<open>10^-6\<close> and \<open>10^21\<close> that is
  the decimal expansion and the result is the integer part; outside, the string is in
  exponent notation and \<open>parseInt\<close> stops at the point, leaving the leading digit.
  \<open>None\<close> is \<open>NaN\<close>, the result for an absent member.
\<close>

definition parseInt_number :: "real \<Rightarrow> int" where
  "parseInt_number r =
     (if r = 0 then 0
      else if 1 / 10 ^ 6 \<le> \<bar>r\<bar> \<and> \<bar>r\<bar> < 10 ^ 21
        then (if r < 0 then - \<lfloor>\<bar>r\<bar>\<rfloor> else \<lfloor>\<bar>r\<bar>\<rfloor>)
      else (if r < 0 then - \<lfloor>\<bar>r\<bar> / 10 powr real_of_int \<lfloor>log 10 \<bar>r\<bar>\<rfloor>\<rfloor>
            else \<lfloor>\<bar>r\<bar> / 10 powr real_of_int \<lfloor>log 10 \<bar>r\<bar>\<rfloor>\<rfloor>))"

definition parseInt :: "real option \<Rightarrow> int option" where
  "parseInt v = map_option parseInt_number v"

definition parseFloat :: "real option \<Rightarrow> real option" where
  "parseFloat v = v"

text \<open>\<open>x || d\<close> on numbers: \<open>NaN\<close> and zero are falsy.\<close>

definition or_default :: "'a::zero option \<Rightarrow> 'a \<Rightarrow> 'a" where
  "or_default x d = (case x of None \<Rightarrow> d | Some v \<Rightarrow> if v = 0 then d else v)"

definition toLowerCase :: "string \<Rightarrow> string" where
  "toLowerCase s =
     map (\<lambda>c. if 65 \<le> (of_char c :: nat) \<and> (of_char c :: nat) \<le> 90
               then char_of ((of_char c :: nat) + 32) else c) s"

fun str_includes :: "string \<Rightarrow> string \<Rightarrow> bool" where
  "str_includes [] pat = (pat = [])"
| "str_includes (c # cs) pat = (take (length pat) (c # cs) = pat \<or> str_includes cs pat)"

text \<open>\<open>/select.*from/i\<close> on the lower-cased text: the dot stops at a line break.\<close>

fun select_from :: "string \<Rightarrow> bool" where
  "select_from [] = False"
| "select_from (c # cs) =
     ((take 6 (c # cs) = ''select''
        \<and> str_includes (takeWhile (\<lambda>x. x \<noteq> CHR 0x0A \<and> x \<noteq> CHR 0x0D) (drop 6 (c # cs))) ''from'')
      \<or> select_from cs)"

definition control_character :: "char \<Rightarrow> bool" where
  "control_character c \<longleftrightarrow>
     (of_char c :: nat) \<le> 8 \<or> (of_char c :: nat) = 11 \<or> (of_char c :: nat) = 12
     \<or> (14 \<le> (of_char c :: nat) \<and> (of_char c :: nat) \<le> 31)"

definition SUSPICIOUS_PATTERNS :: "(string \<Rightarrow> bool) list" where
  \<open>SUSPICIOUS_PATTERNS =
     [\<lambda>t. select_from (toLowerCase t),
      \<lambda>t. str_includes (toLowerCase t) ''<script'',
      \<lambda>t. str_includes (toLowerCase t) ''javascript:'',
      \<lambda>t. str_includes (toLowerCase t) ''eval('',
      \<lambda>t. list_ex control_character t]\<close>

definition BLOCKED_TERMS :: "string list" where
  "BLOCKED_TERMS =
     [''password'', ''secret'', ''token'', ''key'', ''admin'',
      ''drop table'', ''delete from'', ''update set'', ''insert into'']"

definition detectSuspiciousContent :: "string \<Rightarrow> string list" where
  "detectSuspiciousContent t =
     (if list_ex (\<lambda>pattern. pattern t) SUSPICIOUS_PATTERNS then [''Suspicious pattern detected''] else [])
     @ (if list_ex (\<lambda>blocked. str_includes (toLowerCase t) (toLowerCase blocked)) BLOCKED_TERMS
        then [''Blocked content detected''] else [])"

definition query_errors :: "string option \<Rightarrow> string list" where
  "query_errors q =
     (case q of
        None \<Rightarrow> [''Query is required and must be a string'']
      | Some t \<Rightarrow>
          if t = [] then [''Query is required and must be a string'']
          else if length t > MAX_QUERY_LENGTH then [''Query too long (max 1000 characters)'']
          else if length (trim t) < 3 then [''Query too short (minimum 3 characters)'']
          else detectSuspiciousContent t)"

definition ragId_errors :: "string option \<Rightarrow> string list" where
  "ragId_errors r =
     (case r of None \<Rightarrow> [''RAG ID is required'']
      | Some t \<Rightarrow> if t = [] then [''RAG ID is required''] else [])"

definition targetTokens_errors :: "real option \<Rightarrow> string list" where
  "targetTokens_errors v =
     (case v of
        None \<Rightarrow> []
      | Some r \<Rightarrow>
          (case parseInt (Some r) of
             None \<Rightarrow> [''Target tokens must be between 100 and 10000'']
           | Some tokens \<Rightarrow>
               if tokens < MIN_TARGET_TOKENS \<or> tokens > MAX_TARGET_TOKENS
               then [''Target tokens must be between 100 and 10000''] else []))"

definition sanitize :: "raw_input \<Rightarrow> sanitized_input" where
  "sanitize input =
     \<lparr> ragId = map_option trim (in_ragId input),
       query = map_option (\<lambda>q. take MAX_QUERY_LENGTH (trim q)) (in_query input),
       model = map_option trim (in_model input),
       complexity = map_option trim (in_complexity input),
       retrievalStrategy = map_option trim (in_retrievalStrategy input),
       enableVerification = in_enableVerification input,
       maxChunksPerPaper = min (max (or_default (parseInt (in_maxChunksPerPaper input)) 3) 1) 10,
       targetTokens =
         min (max (or_default (parseInt (in_targetTokens input)) DEFAULT_TARGET_TOKENS)
                MIN_TARGET_TOKENS) MAX_TARGET_TOKENS,
       similarityThreshold =
         min (max (or_default (parseFloat (in_similarityThreshold input)) 0.3) 0.1) 1.0,
       vectorWeight = min (max (or_default (parseFloat (in_vectorWeight input)) 0.7) 0.0) 1.0,
       textWeight = min (max (or_default (parseFloat (in_textWeight input)) 0.3) 0.0) 1.0,
       outputStyle = map_option trim (in_outputStyle input) \<rparr>"

record validation =
  isValid :: bool
  errors :: "string list"
  sanitized :: "sanitized_input option"

definition validateAndSanitizeInput :: "raw_input option \<Rightarrow> validation" where
  "validateAndSanitizeInput inp =
     (case inp of
        None \<Rightarrow> \<lparr> isValid = False, errors = [''Invalid request format''], sanitized = None \<rparr>
      | Some input \<Rightarrow>
          (let errs = query_errors (in_query input) @ ragId_errors (in_ragId input)
                      @ targetTokens_errors (in_targetTokens input)
           in \<lparr> isValid = (errs = []), errors = errs, sanitized = Some (sanitize input) \<rparr>))"

text \<open>The claim's reading of the knobs: the raw value clamped into the range.\<close>

definition clamp :: "'a::linorder \<Rightarrow> 'a \<Rightarrow> 'a \<Rightarrow> 'a" where
  "clamp lo hi x = min (max x lo) hi"


section \<open>Notions used in the statements\<close>

text \<open>The loop invariant of both passes of \<open>applyTokenLimit\<close>: \<open>totalTokens\<close> is the
  cost of \<open>selectedChunks\<close> and stays within \<open>availableTokens\<close>.\<close>

definition budget_inv :: "int \<Rightarrow> limit_state \<Rightarrow> bool" where
  "budget_inv availableTokens st \<longleftrightarrow>
     snd (snd st) = sum_list (map (\<lambda>p. chunkTokens (snd p)) (fst st))
     \<and> int (snd (snd st)) \<le> availableTokens"

text \<open>The source-document identity the handler groups by: the property key of
  \<open>metadata.pmid || 'no-pmid'\<close>, or the TypeError of reading it.\<close>

definition paper_key :: "(string \<Rightarrow> json option) \<Rightarrow> db_row \<Rightarrow> string + string" where
  "paper_key jp emb =
     (case pmid_or ''no-pmid'' jp (metadata emb) of
        Inl e \<Rightarrow> Inl e | Inr pmid \<Rightarrow> Inr (to_property_key pmid))"

text \<open>A row that the grouping files: its key can be read and is not a name of
  \<open>Object.prototype\<close>.\<close>

definition groupable :: "(string \<Rightarrow> json option) \<Rightarrow> db_row \<Rightarrow> bool" where
  "groupable jp emb =
     (case paper_key jp emb of Inl e \<Rightarrow> False | Inr k \<Rightarrow> k \<notin> set object_prototype_names)"

text \<open>The chunks filed under one key of \<open>chunksByPaper\<close>.\<close>

definition members :: "string \<Rightarrow> (string \<times> 'a list) list \<Rightarrow> 'a list" where
  "members p obj = concat (map snd (filter (\<lambda>kv. fst kv = p) obj))"

text \<open>Every chunk filed under a key of \<open>chunksByPaper\<close> has that key.\<close>

definition filed :: "(string \<Rightarrow> json option) \<Rightarrow> (string \<times> db_row list) list \<Rightarrow> bool" where
  "filed jp obj \<longleftrightarrow> (\<forall>kv\<in>set obj. \<forall>c\<in>set (snd kv). paper_key jp c = Inr (fst kv))"

definition by_score :: "db_row \<Rightarrow> db_row \<Rightarrow> bool" where
  "by_score a b \<longleftrightarrow> similarity a \<ge> similarity b"

text \<open>A reply in which neither marker pattern matches.\<close>

definition unparsable :: "string \<Rightarrow> bool" where
  "unparsable reply \<longleftrightarrow> verifiedMatch reply = None \<and> confidenceMatch reply = None"

definition verification_failed :: "verification_call \<Rightarrow> bool" where
  "verification_failed call =
     (case call of Reply reply \<Rightarrow> unparsable reply | _ \<Rightarrow> True)"

text \<open>What \<open>JSON.parse\<close> is on the one metadata text of the examples below.\<close>

definition example_JSON_parse :: "string \<Rightarrow> json option" where
  "example_JSON_parse s = (if s = ''null'' then Some JNull else None)"

definition example_row :: "string \<Rightarrow> string \<Rightarrow> real \<Rightarrow> db_row" where
  "example_row text pmid score =
     \<lparr> content = text, metadata = JObj [(''pmid'', JStr pmid)],
       vectorScore = score, bm25Score = score, similarity = score \<rparr>"

definition example_match :: "int \<Rightarrow> string \<Rightarrow> string \<Rightarrow> real \<Rightarrow> match_row" where
  "example_match n text pmid score =
     \<lparr> m_id = n, m_content = text, m_metadata = JObj [(''pmid'', JStr pmid)],
       m_similarity = score \<rparr>"

text \<open>A chunk text whose header is the label alone: \<open>[sourceIndex]\<close>, a line break,
  the content, a line break.\<close>

definition example_chunkText :: "nat \<Rightarrow> db_row \<Rightarrow> string" where
  "example_chunkText sourceIndex emb =
     ''['' @ decimal sourceIndex @ '']'' @ [CHR 0x0A] @ content emb @ [CHR 0x0A]"

text \<open>A world for the examples: every service answers, the store never throws, the
  clock counts the calls; the retrieval result and the verification outcome are given.\<close>

definition example_world :: "string + db_row list \<Rightarrow> verification_call \<Rightarrow> world" where
  "example_world found call =
     \<lparr> w_JSON_parse = example_JSON_parse, w_chunkText = example_chunkText,
       w_preprocessQuery = (\<lambda>q. q), w_ragError = None, w_embeddingError = None,
       w_similarQuery = found,
       w_allChunksQuery = Inr [example_match 7 ''second'' ''1'' 0.8],
       w_generateResponse = (\<lambda>c. Inr ''draft''), w_verification = call,
       w_extractCitedSources = (\<lambda>r s. []), w_store_throws = (\<lambda>x. None),
       w_clock = (\<lambda>k. int k) \<rparr>"

definition example_body :: "bool \<Rightarrow> request_body" where
  "example_body ev =
     \<lparr> b_jobId = ''j'', b_query = ''abc'', b_complexity = None, b_enableVerification = ev,
       b_maxChunksPerPaper = Some 2, b_targetTokens = None, b_similarityThreshold = Some 0.3 \<rparr>"

text \<open>The store calls that leave a job terminal.\<close>

fun is_terminal_op :: "job_op \<Rightarrow> bool" where
  "is_terminal_op (UpdateJobProgress now jobId st prog err) = (st = Completed \<or> st = Failed)"
| "is_terminal_op (StoreJobResults now jobId results) = True"
| "is_terminal_op (MarkJobFailed now jobId err) = True"

text \<open>The store calls that \<open>exec\<close> carries out, and the error it stops with.\<close>

fun applied :: "(job_op \<Rightarrow> string option) \<Rightarrow> step list \<Rightarrow> job_op list \<times> string option" where
  "applied throws [] = ([], None)"
| "applied throws (Throw e # rest) = ([], Some e)"
| "applied throws (Write x # rest) =
     (case throws x of
        Some e \<Rightarrow> ([], Some e)
      | None \<Rightarrow> (x # fst (applied throws rest), snd (applied throws rest)))"

text \<open>The store calls of one run of the background handler, in order.\<close>

definition handler_trace :: "world \<Rightarrow> request_body \<Rightarrow> job_op list" where
  "handler_trace w b =
     (case applied (w_store_throws w) (handler_steps w b) of
        (ops, None) \<Rightarrow> ops
      | (ops, Some msg) \<Rightarrow>
          ops @ (case w_store_throws w (MarkJobFailed (w_clock w 10) (b_jobId b) msg) of
                   None \<Rightarrow> [MarkJobFailed (w_clock w 10) (b_jobId b) msg]
                 | Some e \<Rightarrow> []))"

text \<open>A terminal store call, if any, is the last step.\<close>

fun terminal_last :: "step list \<Rightarrow> bool" where
  "terminal_last [] = True"
| "terminal_last (Throw e # rest) = terminal_last rest"
| "terminal_last (Write x # rest) = ((\<not> is_terminal_op x \<or> rest = []) \<and> terminal_last rest)"

text \<open>A request that validation accepts, with the cap and the vector weight given.\<close>

definition example_input :: "real option \<Rightarrow> real option \<Rightarrow> raw_input" where
  "example_input cap vw =
     \<lparr> in_ragId = Some ''corpus'', in_query = Some ''what regulates gene x'', in_model = None,
       in_complexity = None, in_retrievalStrategy = None, in_enableVerification = False,
       in_maxChunksPerPaper = cap, in_targetTokens = Some 600,
       in_similarityThreshold = Some 0.5, in_vectorWeight = vw, in_textWeight = None,
       in_outputStyle = None \<rparr>"

text \<open>The columns of a job that report its outcome: status, result fields, error and
  completion time.\<close>

definition outcome ::
  "query_job \<Rightarrow> job_status \<times> string option \<times> source_entry list option \<times> display_chunk list option
     \<times> string option \<times> string option \<times> int option"
where
  "outcome j =
     (status j, response j, sources j, allMatchingChunks j, confidence j, error j, completedAt j)"

text \<open>The integer part of a number: the number with its fraction cut off.\<close>

definition integer_part :: "real \<Rightarrow> int" where
  "integer_part r = (if r < 0 then - \<lfloor>- r\<rfloor> else \<lfloor>r\<rfloor>)"

section \<open>Properties of the job store\<close>

lemma job_id_apply_set: "job_id (apply_set u j) = job_id j"
  by (simp add: apply_set_def)

lemma db_update_other:
  "jobId \<noteq> jid \<Longrightarrow>
   filter (\<lambda>j. job_id j = jid) (db_update u jobId tbl) = filter (\<lambda>j. job_id j = jid) tbl"
  by (induction tbl) (auto simp: db_update_def job_id_apply_set)

lemma run_op_other:
  "op_target x \<noteq> jid \<Longrightarrow>
   filter (\<lambda>j. job_id j = jid) (run_op x tbl) = filter (\<lambda>j. job_id j = jid) tbl"
  by (cases x)
     (simp_all add: updateJobProgress_def storeJobResults_def markJobFailed_def Let_def
        db_update_other)

lemma run_ops_other:
  "\<forall>x\<in>set ops. op_target x \<noteq> jid \<Longrightarrow>
   filter (\<lambda>j. job_id j = jid) (run_ops ops tbl) = filter (\<lambda>j. job_id j = jid) tbl"
  by (induction ops arbitrary: tbl) (simp_all add: run_op_other)

lemma getQueryJob_filter:
  "getQueryJob jid tbl =
     (case filter (\<lambda>j. job_id j = jid) tbl of [] \<Rightarrow> None | j # _ \<Rightarrow> Some j)"
  by (induction tbl) (auto simp: getQueryJob_def)

lemma getQueryJob_db_update:
  "getQueryJob jid (db_update u jid tbl) = map_option (apply_set u) (getQueryJob jid tbl)"
  by (induction tbl) (auto simp: getQueryJob_def db_update_def job_id_apply_set)

lemma getQueryJob_updateJobProgress:
  "getQueryJob jid (updateJobProgress now jid st prog err tbl) =
     map_option (\<lambda>j. j \<lparr> status := st,
           progress := (case prog of None \<Rightarrow> progress j | Some p \<Rightarrow> Some p),
           error := (if err \<noteq> None \<and> err \<noteq> Some [] then err else error j),
           startedAt := (if st = Processing then Some now else startedAt j),
           completedAt := (if st = Completed \<or> st = Failed then Some now else completedAt j) \<rparr>)
       (getQueryJob jid tbl)"
  by (cases "getQueryJob jid tbl")
     (auto simp: updateJobProgress_def getQueryJob_db_update Let_def apply_set_def
        set_column_def no_update_def split: option.splits)

lemma getQueryJob_storeJobResults:
  "getQueryJob jid (storeJobResults now jid results tbl) =
     map_option (\<lambda>j. j \<lparr> status := Completed, response := Some (res_response results),
           sources := Some (res_sources results),
           allMatchingChunks := (case res_allMatchingChunks results of
                                   None \<Rightarrow> allMatchingChunks j | Some c \<Rightarrow> Some c),
           confidence := (case res_confidence results of
                            None \<Rightarrow> confidence j | Some c \<Rightarrow> Some (decimal c)),
           completedAt := Some now \<rparr>)
       (getQueryJob jid tbl)"
  by (cases "getQueryJob jid tbl")
     (auto simp: storeJobResults_def getQueryJob_db_update apply_set_def
        set_column_def no_update_def split: option.splits)

lemma getQueryJob_markJobFailed:
  "getQueryJob jid (markJobFailed now jid e tbl) =
     map_option (\<lambda>j. j \<lparr> status := Failed, error := Some e, completedAt := Some now \<rparr>)
       (getQueryJob jid tbl)"
  by (cases "getQueryJob jid tbl")
     (auto simp: markJobFailed_def getQueryJob_db_update apply_set_def
        set_column_def no_update_def split: option.splits)

lemma exec_applied:
  "exec throws steps tbl = (snd (applied throws steps), run_ops (fst (applied throws steps)) tbl)"
  by (induction throws steps tbl rule: exec.induct) (auto split: option.splits)

lemma run_ops_append: "run_ops (xs @ ys) tbl = run_ops ys (run_ops xs tbl)"
  by (induction xs arbitrary: tbl) simp_all

lemma handler_run_ops: "handler w b tbl = run_ops (handler_trace w b) tbl"
  by (simp add: handler_def handler_trace_def exec_applied run_ops_append
        split: prod.splits option.splits)

lemma terminal_last_handler_steps: "terminal_last (handler_steps w b)"
  by (simp add: handler_steps_def tail_steps_def processing_def split: option.splits sum.splits)

lemma applied_terminal_last:
  "terminal_last steps \<Longrightarrow>
   list_all (\<lambda>x. \<not> is_terminal_op x) (butlast (fst (applied throws steps)))
   \<and> (snd (applied throws steps) \<noteq> None \<longrightarrow>
        list_all (\<lambda>x. \<not> is_terminal_op x) (fst (applied throws steps)))"
proof (induction throws steps rule: applied.induct)
  case (1 throws)
  then show ?case by simp
next
  case (2 throws e rest)
  then show ?case by simp
next
  case (3 throws x rest)
  show ?case
  proof (cases "throws x")
    case (Some e)
    then show ?thesis by simp
  next
    case None
    show ?thesis
    proof (cases "rest = []")
      case True
      then show ?thesis using None by simp
    next
      case False
      then have nt: "\<not> is_terminal_op x" and tl: "terminal_last rest"
        using "3.prems" by auto
      from "3.IH" [OF None tl] show ?thesis using None nt by (auto simp: butlast.simps)
    qed
  qed
qed

lemma handler_trace_terminal_last:
  "list_all (\<lambda>x. \<not> is_terminal_op x) (butlast (handler_trace w b))"
proof -
  obtain ops res where a: "applied (w_store_throws w) (handler_steps w b) = (ops, res)"
    by (cases "applied (w_store_throws w) (handler_steps w b)")
  from applied_terminal_last [OF terminal_last_handler_steps, of "w_store_throws w" w b]
  have p: "list_all (\<lambda>x. \<not> is_terminal_op x) (butlast ops)"
    and q: "res \<noteq> None \<Longrightarrow> list_all (\<lambda>x. \<not> is_terminal_op x) ops"
    using a by auto
  show ?thesis
  proof (cases res)
    case None
    then show ?thesis using a p by (simp add: handler_trace_def)
  next
    case (Some msg)
    then show ?thesis using a q
      by (auto simp: handler_trace_def butlast_append list_all_iff split: option.splits
            dest: in_set_butlastD)
  qed
qed

lemmas store_eval =
  updateJobProgress_def storeJobResults_def markJobFailed_def db_update_def apply_set_def
  new_job_def no_update_def set_column_def Let_def

text \<open>
  C1, as stated, fails. A job completed at time 10 is put back to \<open>processing\<close> by a later
  \<open>updateJobProgress\<close> and turned to \<open>failed\<close>, with an error and a new \<open>completedAt\<close>, by a
  later \<open>markJobFailed\<close>: the three writes carry no condition on the stored status.
\<close>

theorem terminal_job_overwritten:
  "map status (storeJobResults 10 ''j''
       \<lparr> res_response = ''ok'', res_sources = [], res_allMatchingChunks = None,
         res_confidence = Some 85, res_verified = Some False \<rparr> [new_job ''j'' 0 False])
     = [Completed]
   \<and> list_all terminal (storeJobResults 10 ''j''
       \<lparr> res_response = ''ok'', res_sources = [], res_allMatchingChunks = None,
         res_confidence = Some 85, res_verified = Some False \<rparr> [new_job ''j'' 0 False])
   \<and> map status (updateJobProgress 20 ''j'' Processing (Some ''again'') None
        (storeJobResults 10 ''j''
          \<lparr> res_response = ''ok'', res_sources = [], res_allMatchingChunks = None,
            res_confidence = Some 85, res_verified = Some False \<rparr> [new_job ''j'' 0 False]))
     = [Processing]
   \<and> map (\<lambda>j. (status j, error j, completedAt j)) (markJobFailed 30 ''j'' ''late''
        (storeJobResults 10 ''j''
          \<lparr> res_response = ''ok'', res_sources = [], res_allMatchingChunks = None,
            res_confidence = Some 85, res_verified = Some False \<rparr> [new_job ''j'' 0 False]))
     = [(Failed, Some ''late'', Some 30)]"
  by (simp add: store_eval terminal_def)

text \<open>
  C1, amended. The row of a job (terminal or not) is changed only by calls addressed to
  its own id: any run of \<open>updateJobProgress\<close>, \<open>storeJobResults\<close> and \<open>markJobFailed\<close> calls
  addressed to other ids leaves it as it is. A call addressed to it is applied whatever
  its status. Of the status, the result fields, the error and \<open>completedAt\<close>:
  \<open>updateJobProgress\<close> writes the status, the error when a non-empty one is given, and
  \<open>completedAt\<close> for a terminal status; \<open>storeJobResults\<close> writes \<open>completed\<close>, the
  response, the sources, the chunk list and confidence when given, and \<open>completedAt\<close>;
  \<open>markJobFailed\<close> writes \<open>failed\<close>, the error and \<open>completedAt\<close>; each leaves the others
  of these columns as they were. Within one run of the background handler the terminal
  write, if there is one, is the last store call of the run: the run itself never writes
  to the job after leaving it terminal.
\<close>

theorem job_row_written_by_own_calls_only:
  assumes "\<forall>x\<in>set ops. op_target x \<noteq> jid"
  shows "getQueryJob jid (run_ops ops tbl) = getQueryJob jid tbl
    \<and> map_option outcome (getQueryJob jid (updateJobProgress now jid st prog err tbl)) =
         map_option (\<lambda>j. (st, response j, sources j, allMatchingChunks j, confidence j,
               (if err \<noteq> None \<and> err \<noteq> Some [] then err else error j),
               (if st = Completed \<or> st = Failed then Some now else completedAt j)))
           (getQueryJob jid tbl)
    \<and> map_option outcome (getQueryJob jid (storeJobResults now jid results tbl)) =
         map_option (\<lambda>j. (Completed, Some (res_response results), Some (res_sources results),
               (case res_allMatchingChunks results of
                  None \<Rightarrow> allMatchingChunks j | Some c \<Rightarrow> Some c),
               (case res_confidence results of
                  None \<Rightarrow> confidence j | Some c \<Rightarrow> Some (decimal c)),
               error j, Some now))
           (getQueryJob jid tbl)
    \<and> map_option outcome (getQueryJob jid (markJobFailed now jid e tbl)) =
         map_option (\<lambda>j. (Failed, response j, sources j, allMatchingChunks j, confidence j,
               Some e, Some now))
           (getQueryJob jid tbl)
    \<and> handler w b tbl = run_ops (handler_trace w b) tbl
    \<and> list_all (\<lambda>x. \<not> is_terminal_op x) (butlast (handler_trace w b))"
proof -
  have other: "getQueryJob jid (run_ops ops tbl) = getQueryJob jid tbl"
    using run_ops_other [OF assms] by (simp add: getQueryJob_filter)
  have upd: "map_option outcome (getQueryJob jid (updateJobProgress now jid st prog err tbl)) =
         map_option (\<lambda>j. (st, response j, sources j, allMatchingChunks j, confidence j,
               (if err \<noteq> None \<and> err \<noteq> Some [] then err else error j),
               (if st = Completed \<or> st = Failed then Some now else completedAt j)))
           (getQueryJob jid tbl)"
    by (cases "getQueryJob jid tbl") (simp_all add: getQueryJob_updateJobProgress outcome_def)
  have sto: "map_option outcome (getQueryJob jid (storeJobResults now jid results tbl)) =
         map_option (\<lambda>j. (Completed, Some (res_response results), Some (res_sources results),
               (case res_allMatchingChunks results of
                  None \<Rightarrow> allMatchingChunks j | Some c \<Rightarrow> Some c),
               (case res_confidence results of
                  None \<Rightarrow> confidence j | Some c \<Rightarrow> Some (decimal c)),
               error j, Some now))
           (getQueryJob jid tbl)"
    by (cases "getQueryJob jid tbl") (simp_all add: getQueryJob_storeJobResults outcome_def)
  have mark: "map_option outcome (getQueryJob jid (markJobFailed now jid e tbl)) =
         map_option (\<lambda>j. (Failed, response j, sources j, allMatchingChunks j, confidence j,
               Some e, Some now))
           (getQueryJob jid tbl)"
    by (cases "getQueryJob jid tbl") (simp_all add: getQueryJob_markJobFailed outcome_def)
  show ?thesis
    by (intro conjI)
       (rule other upd sto mark handler_run_ops handler_trace_terminal_last)+
qed

theorem job_row_written_by_own_calls_only_witness:
  "op_target (UpdateJobProgress 30 ''k'' Processing (Some ''x'') None) \<noteq> ''j''
   \<and> op_target (MarkJobFailed 40 ''k'' ''boom'') \<noteq> ''j''
   \<and> getQueryJob ''j''
        (run_ops [UpdateJobProgress 30 ''k'' Processing (Some ''x'') None, MarkJobFailed 40 ''k'' ''boom'']
           (markJobFailed 10 ''j'' ''e'' [new_job ''j'' 0 False, new_job ''k'' 1 False]))
     = getQueryJob ''j'' (markJobFailed 10 ''j'' ''e'' [new_job ''j'' 0 False, new_job ''k'' 1 False])
   \<and> map_option status (getQueryJob ''j'' (markJobFailed 10 ''j'' ''e'' [new_job ''j'' 0 False, new_job ''k'' 1 False]))
     = Some Failed"
  using job_row_written_by_own_calls_only
    [of "[UpdateJobProgress 30 ''k'' Processing (Some ''x'') None, MarkJobFailed 40 ''k'' ''boom'']"
        "''j''" "markJobFailed 10 ''j'' ''e'' [new_job ''j'' 0 False, new_job ''k'' 1 False]"]
  by (simp add: store_eval getQueryJob_def)

text \<open>
  C2: \<open>startedAt\<close> is to be set once, on the first transition into \<open>processing\<close>. The code
  writes it on every \<open>processing\<close> update: after a first update at time 1000 and a second
  at time 2000 the stored \<open>startedAt\<close> is 2000.
\<close>

theorem startedAt_overwritten_by_second_progress_update:
  "map startedAt (updateJobProgress 1000 ''j'' Processing (Some ''a'') None [new_job ''j'' 0 False])
     = [Some 1000]
   \<and> map startedAt (updateJobProgress 2000 ''j'' Processing (Some ''b'') None
        (updateJobProgress 1000 ''j'' Processing (Some ''a'') None [new_job ''j'' 0 False]))
     = [Some 2000]"
  by (simp add: store_eval)

text \<open>
  C3: \<open>cleanupExpiredJobs\<close> is to delete the rows whose \<open>expiresAt\<close> has passed. The code
  compares with \<open>eq\<close>: a job created at time 0, expired since 3600000, is still there
  after a sweep at time 5000000, and the count is 0.
\<close>

theorem cleanupExpiredJobs_keeps_expired_job:
  "expiresAt (new_job ''j'' 0 False) < 5000000
   \<and> cleanupExpiredJobs 5000000 [new_job ''j'' 0 False] = ([new_job ''j'' 0 False], 0)"
  by (simp add: cleanupExpiredJobs_def new_job_def)


section \<open>Properties of retrieval\<close>

subsection \<open>Fused score\<close>

text \<open>
  C7. With \<open>v = vectorScore_sql d\<close> the vector similarity and \<open>l = bm25Score_sql r\<close> the
  lexical score (the raw score over 10, capped at 1, so at most 1 and not negative for a
  raw score that is not negative), the fused score is \<open>l\<close> when the vector weight is 0,
  \<open>v\<close> when (the vector weight is not 0 and) the text weight is 0, and
  \<open>wv * v + wl * l\<close> otherwise; with weights 1 and 0 it is \<open>v\<close>, with 0 and 1 it is \<open>l\<close>,
  with 0.7 and 0.3 it is \<open>0.7 * v + 0.3 * l\<close>. The cases are tried in this order, as in
  the specification's list: with both weights 0 the score is \<open>l\<close>.
\<close>

theorem fused_score_cases:
  "similarityCalc 0 wl d r = bm25Score_sql r
   \<and> (wv \<noteq> 0 \<longrightarrow> similarityCalc wv 0 d r = vectorScore_sql d)
   \<and> (wv \<noteq> 0 \<and> wl \<noteq> 0 \<longrightarrow>
        similarityCalc wv wl d r = wv * vectorScore_sql d + wl * bm25Score_sql r)
   \<and> similarityCalc 1 0 d r = vectorScore_sql d
   \<and> similarityCalc 0 1 d r = bm25Score_sql r
   \<and> similarityCalc 0.7 0.3 d r = 0.7 * vectorScore_sql d + 0.3 * bm25Score_sql r
   \<and> bm25Score_sql r \<le> 1 \<and> (0 \<le> r \<longrightarrow> 0 \<le> bm25Score_sql r)"
  by (simp add: similarityCalc_def bm25Score_sql_def)

theorem fused_score_cases_witness:
  "(1/2 :: real) \<noteq> 0
   \<and> similarityCalc (1/2) 0 (1/5) 4 = 4/5
   \<and> similarityCalc (1/2) (1/2) (1/5) 4 = 3/5
   \<and> (0::real) \<le> 4 \<and> 0 \<le> bm25Score_sql 4"
  using fused_score_cases [of "1/2" "1/5" 4 "1/2"]
  by (simp add: vectorScore_sql_def bm25Score_sql_def)

subsection \<open>Token budget\<close>

lemmas token_eval =
  applyTokenLimit_def availableTokens_of_def estimateTokens_def contextSummary_limit_def
  chunkTokens_def stringify_chunk_def json_string_def json_escape_def pmid_or_def
  parseMetadata_def read_pmid_def same_value_def Let_def length_concat

lemma budget_inv_push:
  "budget_inv avail (sel, seen, tot) \<Longrightarrow> int (tot + chunkTokens c) \<le> avail \<Longrightarrow>
   budget_inv avail (sel @ [(i, c)], seen', tot + chunkTokens c)"
  by (simp add: budget_inv_def)

lemma first_pass_inv:
  "budget_inv avail st \<Longrightarrow> first_pass jp avail xs st = Inr st' \<Longrightarrow> budget_inv avail st'"
proof (induction jp avail xs st rule: first_pass.induct)
  case (1 jp availableTokens st)
  then show ?case by simp
next
  case (2 jp availableTokens i chunk rest selectedChunks seenPapers totalTokens)
  have same: "budget_inv availableTokens (selectedChunks, seenPapers, totalTokens)"
    using "2.prems"(1) .
  show ?case
  proof (cases "pmid_or ''unknown'' jp (metadata chunk)")
    case (Inl e)
    then show ?thesis using "2.prems"(2) by simp
  next
    case (Inr pmid)
    show ?thesis
    proof (cases "list_ex (same_value pmid) seenPapers")
      case True
      then show ?thesis using "2.IH"(2) [OF Inr] same "2.prems"(2) Inr by simp
    next
      case unseen: False
      show ?thesis
      proof (cases "int (totalTokens + chunkTokens chunk) \<le> availableTokens")
        case fits: True
        have "budget_inv availableTokens
                (selectedChunks @ [(i, chunk)], pmid # seenPapers,
                 totalTokens + chunkTokens chunk)"
          using same fits by (rule budget_inv_push)
        then show ?thesis using "2.IH"(1) [OF Inr] unseen fits "2.prems"(2) Inr by simp
      next
        case False
        then show ?thesis using same unseen "2.prems"(2) Inr by simp
      qed
    qed
  qed
qed

lemma second_pass_inv:
  "budget_inv avail st \<Longrightarrow> budget_inv avail (second_pass avail xs st)"
proof (induction avail xs st rule: second_pass.induct)
  case (1 availableTokens st)
  then show ?case by simp
next
  case (2 availableTokens i chunk rest selectedChunks seenPapers totalTokens)
  have same: "budget_inv availableTokens (selectedChunks, seenPapers, totalTokens)"
    using "2.prems" .
  show ?case
  proof (cases "i \<in> set (map fst selectedChunks)")
    case True
    then show ?thesis using "2.IH"(1) same by simp
  next
    case new: False
    show ?thesis
    proof (cases "int (totalTokens + chunkTokens chunk) \<le> availableTokens")
      case fits: True
      have "budget_inv availableTokens
              (selectedChunks @ [(i, chunk)], seenPapers, totalTokens + chunkTokens chunk)"
        using same fits by (rule budget_inv_push)
      then show ?thesis using "2.IH"(2) new fits by simp
    next
      case False
      then show ?thesis using same new by simp
    qed
  qed
qed

text \<open>With a positive budget a selection that is returned stays within it; with a budget
  of zero or less the first chunk alone is returned.\<close>

lemma applyTokenLimit_within_budget:
  assumes "0 < availableTokens_of target q"
    and "applyTokenLimit jp results target q = Inr selected"
  shows "int (sum_list (map chunkTokens selected)) \<le> availableTokens_of target q"
proof -
  let ?a = "availableTokens_of target q"
  let ?ix = "zip [0 ..< length results] results"
  obtain st1 where st1: "first_pass jp ?a ?ix ([], [], 0) = Inr st1"
    and sel: "selected = map snd (fst (second_pass ?a ?ix st1))"
    using assms by (auto simp: applyTokenLimit_def Let_def split: sum.splits)
  have "budget_inv ?a ([], [], 0)" using assms(1) by (simp add: budget_inv_def)
  then have "budget_inv ?a st1" using st1 by (rule first_pass_inv)
  then have "budget_inv ?a (second_pass ?a ?ix st1)" by (rule second_pass_inv)
  then show ?thesis using sel
    by (cases "second_pass ?a ?ix st1") (simp add: budget_inv_def comp_def)
qed

lemma applyTokenLimit_floor:
  "availableTokens_of target q \<le> 0 \<Longrightarrow> applyTokenLimit jp results target q = Inr (take 1 results)"
  by (simp add: applyTokenLimit_def)

text \<open>A row whose metadata is the text \<open>null\<close> makes the selection throw.\<close>

lemma applyTokenLimit_throws_on_null_text:
  "applyTokenLimit example_JSON_parse
     [\<lparr> content = ''a'', metadata = JStr ''null'',
        vectorScore = 0.9, bm25Score = 0.5, similarity = 0.78 \<rparr>] 2000 ''abc''
   = Inl ''Cannot read properties of null (reading 'pmid')''"
  by (simp add: token_eval example_JSON_parse_def)

text \<open>
  C4: the selection is to hold at least one chunk whenever the input is not empty and
  the target is positive. With target 600 and query \<open>abc\<close> the budget is 92 tokens; the
  only candidate costs 108. The budget is positive, so the floor is not taken, both
  passes stop at the first chunk, and the result is empty.
\<close>

theorem applyTokenLimit_empty_on_small_positive_budget:
  "availableTokens_of 600 ''abc'' = 92
   \<and> chunkTokens \<lparr> content = replicate 400 (CHR ''a''), metadata = JNull,
                    vectorScore = 0.9, bm25Score = 0.5, similarity = 0.78 \<rparr> = 108
   \<and> applyTokenLimit example_JSON_parse
        [\<lparr> content = replicate 400 (CHR ''a''), metadata = JNull,
           vectorScore = 0.9, bm25Score = 0.5, similarity = 0.78 \<rparr>] 600 ''abc'' = Inr []"
  by (simp add: token_eval)


subsection \<open>Per-document cap\<close>

lemma filter_key_le1:
  "distinct (map fst obj) \<Longrightarrow> length (filter (\<lambda>kv. fst kv = p) obj) \<le> 1"
  by (induction obj) (auto simp: filter_empty_conv image_iff)

lemma sort_key_short: "length xs \<le> 1 \<Longrightarrow> sort_key f xs = xs"
  by (cases xs) auto

lemma filter_Object_entries:
  assumes "distinct (map fst obj)"
  shows "filter (\<lambda>kv. fst kv = p) (Object_entries obj) = filter (\<lambda>kv. fst kv = p) obj"
proof -
  let ?ix = "filter (\<lambda>kv. is_array_index (fst kv)) obj"
  have short: "length (filter (\<lambda>kv. fst kv = p) ?ix) \<le> 1"
    by (rule filter_key_le1) (use assms in \<open>simp add: distinct_map_filter\<close>)
  have A: "filter (\<lambda>kv. fst kv = p) ?ix
          = (if is_array_index p then filter (\<lambda>kv. fst kv = p) obj else [])"
    by (induction obj) auto
  have B: "filter (\<lambda>kv. fst kv = p) (filter (\<lambda>kv. \<not> is_array_index (fst kv)) obj)
          = (if is_array_index p then [] else filter (\<lambda>kv. fst kv = p) obj)"
    by (induction obj) auto
  have "filter (\<lambda>kv. fst kv = p) (Object_entries obj)
        = sort_key (\<lambda>kv. nat_of_digits (fst kv)) (filter (\<lambda>kv. fst kv = p) ?ix)
          @ filter (\<lambda>kv. fst kv = p) (filter (\<lambda>kv. \<not> is_array_index (fst kv)) obj)"
    unfolding Object_entries_def filter_append filter_sort ..
  also have "\<dots> = filter (\<lambda>kv. fst kv = p) ?ix
          @ filter (\<lambda>kv. fst kv = p) (filter (\<lambda>kv. \<not> is_array_index (fst kv)) obj)"
    by (simp only: sort_key_short [OF short])
  also have "\<dots> = filter (\<lambda>kv. fst kv = p) obj"
    by (simp only: A B split: if_splits) simp
  finally show ?thesis .
qed

lemma set_Object_entries: "set (Object_entries obj) = set obj"
  by (auto simp: Object_entries_def)

lemma keys_push_chunk_old:
  "k \<in> fst ` set obj \<Longrightarrow> map fst (push_chunk k x obj) = map fst obj"
proof (induction obj)
  case Nil
  then show ?case by simp
next
  case (Cons kv obj)
  obtain k' xs where kv: "kv = (k', xs)" by (cases kv)
  show ?case
  proof (cases "k' = k")
    case True
    then show ?thesis using kv by simp
  next
    case False
    then have "k \<in> fst ` set obj" using Cons.prems kv by auto
    then show ?thesis using Cons.IH kv False by simp
  qed
qed

lemma keys_push_chunk_new:
  "k \<notin> fst ` set obj \<Longrightarrow> map fst (push_chunk k x obj) = map fst obj @ [k]"
  by (induction obj) auto

lemma distinct_push_chunk:
  "distinct (map fst obj) \<Longrightarrow> distinct (map fst (push_chunk k x obj))"
  by (cases "k \<in> fst ` set obj") (simp_all add: keys_push_chunk_old keys_push_chunk_new)

lemma members_push_chunk:
  "distinct (map fst obj) \<Longrightarrow>
   members p (push_chunk k x obj) = members p obj @ (if p = k then [x] else [])"
proof (induction obj)
  case Nil
  then show ?case by (simp add: members_def)
next
  case (Cons kv obj)
  obtain k' xs where kv: "kv = (k', xs)" by (cases kv)
  have tail: "k' \<notin> fst ` set obj" using Cons.prems kv by simp
  then have none: "filter (\<lambda>kv. fst kv = k') obj = []"
    by (auto simp: filter_empty_conv)
  show ?case
  proof (cases "k' = k")
    case True
    then show ?thesis using none kv by (auto simp: members_def)
  next
    case False
    then show ?thesis using Cons kv by (auto simp: members_def)
  qed
qed

lemma filed_push_chunk:
  "filed jp obj \<Longrightarrow> paper_key jp x = Inr k \<Longrightarrow> filed jp (push_chunk k x obj)"
  by (induction obj) (auto simp: filed_def split: if_splits)

lemma group_by_paper_Inr:
  assumes "group_by_paper jp xs obj = Inr obj'" "distinct (map fst obj)" "filed jp obj"
  shows "distinct (map fst obj') \<and> filed jp obj'
         \<and> (\<forall>p. members p obj' = members p obj @ filter (\<lambda>c. paper_key jp c = Inr p) xs)"
  using assms
proof (induction xs arbitrary: obj)
  case Nil
  then show ?case by simp
next
  case (Cons x xs)
  obtain pmid where pmid: "pmid_or ''no-pmid'' jp (metadata x) = Inr pmid"
    using Cons.prems(1) by (cases "pmid_or ''no-pmid'' jp (metadata x)") simp_all
  let ?k = "to_property_key pmid"
  have key: "paper_key jp x = Inr ?k" using pmid by (simp add: paper_key_def)
  have ok: "?k \<notin> set object_prototype_names"
    using Cons.prems(1) pmid by (auto split: if_splits)
  then have rec: "group_by_paper jp xs (push_chunk ?k x obj) = Inr obj'"
    using Cons.prems(1) pmid by simp
  have d: "distinct (map fst (push_chunk ?k x obj))"
    using Cons.prems(2) by (rule distinct_push_chunk)
  have f: "filed jp (push_chunk ?k x obj)"
    using Cons.prems(3) key by (rule filed_push_chunk)
  from Cons.IH [OF rec d f]
  show ?case
    by (auto simp: members_push_chunk [OF Cons.prems(2)] key)
qed

lemma group_by_paper_total:
  "\<forall>c\<in>set xs. groupable jp c \<Longrightarrow> \<exists>obj'. group_by_paper jp xs obj = Inr obj'"
  by (induction xs arbitrary: obj) (auto simp: groupable_def paper_key_def split: sum.splits)

lemma set_slice0: "set (slice0 cap xs) \<subseteq> set xs"
  by (auto simp: slice0_def dest: in_set_takeD split: option.splits)

lemma slice0_Nil: "slice0 cap [] = []"
  by (simp add: slice0_def split: option.splits)

lemma filter_flatten:
  "filed jp es \<Longrightarrow>
   filter (\<lambda>c. paper_key jp c = Inr p) (concat (map (\<lambda>(pmid, chunks). slice0 cap chunks) es))
   = concat (map (\<lambda>(pmid, chunks). slice0 cap chunks) (filter (\<lambda>kv. fst kv = p) es))"
proof (induction es)
  case Nil
  then show ?case by simp
next
  case (Cons kv es)
  obtain k cs where kv: "kv = (k, cs)" by (cases kv)
  have all: "\<forall>c\<in>set (slice0 cap cs). paper_key jp c = Inr k"
    using Cons.prems kv set_slice0 [of cap cs] by (auto simp: filed_def)
  have hd: "filter (\<lambda>c. paper_key jp c = Inr p) (slice0 cap cs) = (if k = p then slice0 cap cs else [])"
    using all by (auto simp: filter_empty_conv filter_id_conv)
  have "filed jp es" using Cons.prems by (simp add: filed_def)
  then show ?case using Cons.IH kv hd by simp
qed

lemma flatten_single:
  "distinct (map fst obj) \<Longrightarrow>
   concat (map (\<lambda>(pmid, chunks). slice0 cap chunks) (filter (\<lambda>kv. fst kv = p) obj))
   = slice0 cap (members p obj)"
proof -
  assume "distinct (map fst obj)"
  then have "length (filter (\<lambda>kv. fst kv = p) obj) \<le> 1" by (rule filter_key_le1)
  then show ?thesis
    by (cases "filter (\<lambda>kv. fst kv = p) obj") (auto simp: members_def slice0_Nil)
qed

lemma processedChunks_groups:
  assumes "processedChunks jp cap sim = Inr out"
  shows "filter (\<lambda>c. paper_key jp c = Inr p) out = slice0 cap (filter (\<lambda>c. paper_key jp c = Inr p) sim)"
proof -
  from assms obtain obj where g: "group_by_paper jp sim [] = Inr obj"
    and out: "out = concat (map (\<lambda>(pmid, chunks). slice0 cap chunks) (Object_entries obj))"
    by (auto simp: processedChunks_def split: sum.splits)
  have inv: "distinct (map fst obj)" "filed jp obj"
    and mem: "members p obj = filter (\<lambda>c. paper_key jp c = Inr p) sim"
    using group_by_paper_Inr [OF g] by (simp_all add: filed_def members_def)
  have "filed jp (Object_entries obj)"
    using inv(2) by (simp add: filed_def set_Object_entries)
  then have "filter (\<lambda>c. paper_key jp c = Inr p) out
      = concat (map (\<lambda>(pmid, chunks). slice0 cap chunks) (filter (\<lambda>kv. fst kv = p) (Object_entries obj)))"
    unfolding out by (rule filter_flatten)
  also have "\<dots> = slice0 cap (members p obj)"
    by (simp only: filter_Object_entries [OF inv(1)] flatten_single [OF inv(1)])
  finally show ?thesis by (simp add: mem)
qed

lemma sorted_wrt_slice0: "sorted_wrt R xs \<Longrightarrow> sorted_wrt R (slice0 cap xs)"
  by (auto simp: slice0_def sorted_wrt_take split: option.splits)

lemmas group_eval =
  processedChunks_def Object_entries_def is_array_index_def is_digit_def nat_of_digits_def
  slice0_def pmid_or_def parseMetadata_def read_pmid_def example_row_def
  object_prototype_names_def paper_key_def groupable_def Let_def by_score_def

text \<open>
  C6, amended. Provided every candidate's pmid can be read and none is a name that
  \<open>Object.prototype\<close> defines (otherwise the grouping throws), the context-building set
  exists and, for every source document, its
  chunks in that set are the \<open>slice(0, cap)\<close> of its chunks among the candidates, in the
  candidates' order: at most \<open>K\<close> of them for a cap \<open>K \<ge> 0\<close>, and in descending fused
  score when the candidates are. The set lists one document's chunks after another's, so
  the order across documents is not the order by score.
\<close>

theorem per_paper_cap:
  assumes "\<forall>c\<in>set sim. groupable jp c"
  shows "\<exists>out. processedChunks jp cap sim = Inr out
     \<and> (\<forall>p. filter (\<lambda>c. paper_key jp c = Inr p) out
            = slice0 cap (filter (\<lambda>c. paper_key jp c = Inr p) sim))
     \<and> (\<forall>K. cap = Some K \<and> 0 \<le> K \<longrightarrow>
            (\<forall>p. length (filter (\<lambda>c. paper_key jp c = Inr p) out) \<le> nat K))
     \<and> (sorted_wrt by_score sim \<longrightarrow>
            (\<forall>p. sorted_wrt by_score (filter (\<lambda>c. paper_key jp c = Inr p) out)))"
proof -
  from group_by_paper_total [OF assms] obtain obj where "group_by_paper jp sim [] = Inr obj"
    by blast
  then obtain out where out: "processedChunks jp cap sim = Inr out"
    by (simp add: processedChunks_def)
  have eq: "filter (\<lambda>c. paper_key jp c = Inr p) out
            = slice0 cap (filter (\<lambda>c. paper_key jp c = Inr p) sim)" for p
    using out by (rule processedChunks_groups)
  have len: "length (filter (\<lambda>c. paper_key jp c = Inr p) out) \<le> nat K"
    if "cap = Some K" "0 \<le> K" for K p
    using that by (simp add: eq slice0_def)
  have srt: "sorted_wrt by_score (filter (\<lambda>c. paper_key jp c = Inr p) out)"
    if "sorted_wrt by_score sim" for p
    unfolding eq using that by (intro sorted_wrt_slice0 sorted_wrt_filter)
  show ?thesis using out eq len srt by blast
qed

theorem per_paper_cap_witness:
  "groupable example_JSON_parse (example_row ''a'' ''1'' 0.9)
   \<and> groupable example_JSON_parse (example_row ''b'' ''2'' 0.8)
   \<and> groupable example_JSON_parse (example_row ''c'' ''1'' 0.7)
   \<and> sorted_wrt by_score [example_row ''a'' ''1'' 0.9, example_row ''b'' ''2'' 0.8, example_row ''c'' ''1'' 0.7]
   \<and> processedChunks example_JSON_parse (Some 1)
        [example_row ''a'' ''1'' 0.9, example_row ''b'' ''2'' 0.8, example_row ''c'' ''1'' 0.7]
      = Inr [example_row ''a'' ''1'' 0.9, example_row ''b'' ''2'' 0.8]
   \<and> length (filter (\<lambda>c. paper_key example_JSON_parse c = Inr ''1'')
        [example_row ''a'' ''1'' 0.9, example_row ''b'' ''2'' 0.8]) \<le> nat 1"
  using per_paper_cap [of "[example_row ''a'' ''1'' 0.9, example_row ''b'' ''2'' 0.8, example_row ''c'' ''1'' 0.7]"
      example_JSON_parse "Some 1"]
  by (simp add: group_eval)

text \<open>
  C6, as stated, fails on the order across groups: of three candidates in descending
  score, the first and third from paper 1 and the second from paper 2, the flattened
  result with cap 2 is first, third, second.
\<close>

theorem flattened_order_not_by_score:
  "sorted_wrt by_score [example_row ''a'' ''1'' 0.9, example_row ''b'' ''2'' 0.8, example_row ''c'' ''1'' 0.7]
   \<and> processedChunks example_JSON_parse (Some 2)
        [example_row ''a'' ''1'' 0.9, example_row ''b'' ''2'' 0.8, example_row ''c'' ''1'' 0.7]
      = Inr [example_row ''a'' ''1'' 0.9, example_row ''c'' ''1'' 0.7, example_row ''b'' ''2'' 0.8]
   \<and> \<not> sorted_wrt by_score
        [example_row ''a'' ''1'' 0.9, example_row ''c'' ''1'' 0.7, example_row ''b'' ''2'' 0.8]"
  by (simp add: group_eval)


section \<open>Properties of the stored result\<close>

subsection \<open>Sources and the context mark\<close>

lemma decimal_1: "decimal (Suc 0) = ''1''"
  by (simp add: decimal.simps [of "Suc 0"] char_of_def bit_Suc_0_iff)

lemma decimal_2: "decimal (Suc (Suc 0)) = ''2''"
  by (simp add: decimal.simps [of "Suc (Suc 0)"] char_of_def bit_Suc_0_iff)

lemma decimal_3: "decimal (Suc (Suc (Suc 0))) = ''3''"
  by (simp add: decimal.simps [of "Suc (Suc (Suc 0))"] char_of_def bit_Suc_0_iff)

text \<open>The prompt context is made of rows of \<open>processedChunks\<close> only.\<close>

lemma set_sent_to_model: "set (sent_to_model ct m processed) \<subseteq> set processed"
  by (auto simp: sent_to_model_def dest: in_set_takeD)

lemmas display_eval =
  final_results_def display_chunks_def sources_of_def example_row_def example_match_def
  Let_def

lemmas context_eval =
  context_of_def sent_to_model_def example_chunkText_def decimal_1 decimal_2 decimal_3

text \<open>
  C5: a chunk marked \<open>usedInContext\<close> is to be in the sources list with a matching citation
  index, and a chunk that was not put into the prompt is to have \<open>usedInContext = false\<close>.
  The marks and the sources list are computed from \<open>similarEmbeddings\<close>, the prompt from
  \<open>processedChunks\<close>. First, of two retrieved chunks of paper 1 with cap 1 only the first
  is put into the prompt; the second, listed among the matching chunks, is still marked
  \<open>usedInContext\<close>. Second, of three retrieved chunks \<open>a\<close>, \<open>b\<close>, \<open>c\<close>, the first and third
  from paper 1, with cap 2 the prompt labels \<open>a\<close> as \<open>[1]\<close>, \<open>c\<close> as \<open>[2]\<close> and \<open>b\<close> as \<open>[3]\<close>,
  while the sources list numbers \<open>b\<close> as 2 and \<open>c\<close> as 3: when the citation \<open>[2]\<close> is
  extracted from the answer, \<open>citedInResponse\<close> is set on \<open>b\<close> and not on \<open>c\<close>.
\<close>

theorem context_marks_disagree_with_prompt:
  "processedChunks example_JSON_parse (Some 1)
     [example_row ''first'' ''1'' 0.9, example_row ''second'' ''1'' 0.8]
     = Inr [example_row ''first'' ''1'' 0.9]
   \<and> sent_to_model example_chunkText (Some 5000) [example_row ''first'' ''1'' 0.9]
     = [example_row ''first'' ''1'' 0.9]
   \<and> map_option (map (\<lambda>d. (dc_content d, usedInContext d)))
       (res_allMatchingChunks
         (final_results (\<lambda>r s. []) False FetchRejects ''answer''
            [example_row ''first'' ''1'' 0.9, example_row ''second'' ''1'' 0.8]
            [example_match 7 ''second'' ''1'' 0.8]))
     = Some [(''second'', True)]
   \<and> processedChunks example_JSON_parse (Some 2)
        [example_row ''a'' ''1'' 0.9, example_row ''b'' ''2'' 0.8, example_row ''c'' ''1'' 0.7]
     = Inr [example_row ''a'' ''1'' 0.9, example_row ''c'' ''1'' 0.7, example_row ''b'' ''2'' 0.8]
   \<and> context_of example_chunkText (Some 5000)
        [example_row ''a'' ''1'' 0.9, example_row ''c'' ''1'' 0.7, example_row ''b'' ''2'' 0.8]
     = ''[1]'' @ [CHR 0x0A] @ ''a'' @ [CHR 0x0A, CHR 0x0A]
       @ ''[2]'' @ [CHR 0x0A] @ ''c'' @ [CHR 0x0A, CHR 0x0A]
       @ ''[3]'' @ [CHR 0x0A] @ ''b'' @ [CHR 0x0A, CHR 0x0A]
   \<and> map (\<lambda>s. (src_index s, src_content s))
       (res_sources
         (final_results (\<lambda>r s. [2]) False FetchRejects ''as shown in [2]''
            [example_row ''a'' ''1'' 0.9, example_row ''b'' ''2'' 0.8, example_row ''c'' ''1'' 0.7]
            [example_match 7 ''b'' ''2'' 0.8, example_match 8 ''c'' ''1'' 0.7]))
     = [(1, ''a''), (2, ''b''), (3, ''c'')]
   \<and> map_option (map (\<lambda>d. (dc_content d, usedInContext d, citedInResponse d)))
       (res_allMatchingChunks
         (final_results (\<lambda>r s. [2]) False FetchRejects ''as shown in [2]''
            [example_row ''a'' ''1'' 0.9, example_row ''b'' ''2'' 0.8, example_row ''c'' ''1'' 0.7]
            [example_match 7 ''b'' ''2'' 0.8, example_match 8 ''c'' ''1'' 0.7]))
     = Some [(''b'', True, Some True), (''c'', True, Some False)]"
  by (simp add: display_eval group_eval context_eval)


subsection \<open>Verification and confidence\<close>

lemma decimal_50: "decimal 50 = ''50''"
  by (simp add: decimal.simps [of 50] decimal.simps [of 5] char_of_def bit_Suc_0_iff)

lemma decimal_85: "decimal 85 = ''85''"
  by (simp add: decimal.simps [of 85] decimal.simps [of 8] char_of_def bit_Suc_0_iff)

lemma decimal_90: "decimal 90 = ''90''"
  by (simp add: decimal.simps [of 90] decimal.simps [of 9] char_of_def bit_Suc_0_iff)

lemma digit_char:
  "d < 10 \<Longrightarrow> is_digit (char_of (48 + d)) \<and> \<not> is_space (char_of (48 + d))
     \<and> (of_char (char_of (48 + d)) :: nat) - 48 = d"
  by (simp add: is_digit_def is_space_def)

lemma nat_of_digits_snoc:
  "nat_of_digits (ds @ [c]) = 10 * nat_of_digits ds + ((of_char c :: nat) - 48)"
  by (simp add: nat_of_digits_def)

lemma decimal_digits:
  "decimal n \<noteq> [] \<and> list_all is_digit (decimal n) \<and> nat_of_digits (decimal n) = n"
proof (induction n rule: decimal.induct)
  case (1 n)
  show ?case
  proof (cases "n < 10")
    case True
    then show ?thesis
      using digit_char [of n] by (simp add: decimal.simps [of n] nat_of_digits_def)
  next
    case False
    have d: "n mod 10 < 10" by simp
    from "1.IH" [OF False] show ?thesis
      using False digit_char [OF d]
      by (simp add: decimal.simps [of n] nat_of_digits_snoc)
  qed
qed

text \<open>The status endpoint reads back the number that \<open>storeJobResults\<close> wrote.\<close>

lemma parseFloat_digits_decimal: "parseFloat_digits (decimal n) = Some n"
proof -
  from decimal_digits [of n] obtain c cs where cs: "decimal n = c # cs"
    and all: "list_all is_digit (c # cs)" and val: "nat_of_digits (decimal n) = n"
    by (cases "decimal n") auto
  have "\<not> is_space c" using all by (auto simp: is_digit_def is_space_def)
  then have "dropWhile is_space (c # cs) = c # cs" by simp
  moreover have "takeWhile is_digit (c # cs) = c # cs"
    using all by (simp add: takeWhile_eq_all_conv list_all_iff)
  ultimately show ?thesis using val cs by (simp add: parseFloat_digits_def Let_def)
qed

lemma exec_writes:
  "\<forall>x. throws x = None \<Longrightarrow> exec throws (map Write ops) tbl = (None, run_ops ops tbl)"
  by (induction ops arbitrary: tbl) simp_all

lemma unparsable_example: "unparsable ''The answer looks fine.''"
  by (simp add: unparsable_def verifiedMatch_def)

lemma verifyResponse_failed:
  "verification_failed call \<Longrightarrow> verifyResponse answer call = (answer, 50)"
  by (cases call) (simp_all add: verification_failed_def verifyResponse_def unparsable_def)

lemma verifyResponse_Reply:
  "verifyResponse answer (Reply reply) =
     ((case verifiedMatch reply of Some v \<Rightarrow> trim v | None \<Rightarrow> answer),
      (case confidenceMatch reply of Some ds \<Rightarrow> nat_of_digits ds | None \<Rightarrow> 50))"
  by (simp add: verifyResponse_def)

lemma handler_steps_success:
  assumes "w_ragError w = None" "w_embeddingError w = None"
    and "w_similarQuery w = Inr results" "w_allChunksQuery w = Inr allChunks"
    and "findSimilarEmbeddings (w_JSON_parse w) results (b_targetTokens b)
           (w_preprocessQuery w (b_query b)) = Inr sim" "sim \<noteq> []"
    and "processedChunks (w_JSON_parse w) (b_maxChunksPerPaper b) sim = Inr processed"
    and "w_generateResponse w (context_of (w_chunkText w)
           (maxContextTokens (selectedComplexity (b_complexity b))) processed) = Inr init"
  shows "handler_steps w b = map Write
     ([UpdateJobProgress (w_clock w 0) (b_jobId b) Processing (Some ''Initializing query processing...'') None,
       UpdateJobProgress (w_clock w 1) (b_jobId b) Processing (Some ''Preparing query for processing...'') None,
       UpdateJobProgress (w_clock w 2) (b_jobId b) Processing (Some ''Generating query embeddings...'') None,
       UpdateJobProgress (w_clock w 3) (b_jobId b) Processing (Some ''Searching knowledge base...'') None,
       UpdateJobProgress (w_clock w 4) (b_jobId b) Processing (Some ''Retrieving all matching content...'') None,
       UpdateJobProgress (w_clock w 5) (b_jobId b) Processing (Some ''Preparing context for LLM...'') None,
       UpdateJobProgress (w_clock w 6) (b_jobId b) Processing (Some ''Generating response with AI model...'') None]
      @ (if b_enableVerification b
         then [UpdateJobProgress (w_clock w 7) (b_jobId b) Processing (Some ''Verifying response accuracy...'') None]
         else [])
      @ [UpdateJobProgress (w_clock w 8) (b_jobId b) Processing (Some ''Saving results...'') None,
         StoreJobResults (w_clock w 9) (b_jobId b)
           (final_results (w_extractCitedSources w) (b_enableVerification b) (w_verification w)
              init sim (matchingChunks_of b allChunks))])"
  using assms by (simp add: handler_steps_def tail_steps_def processing_def matchingChunks_of_def)

lemma handler_success:
  assumes "w_ragError w = None" "w_embeddingError w = None"
    and "w_similarQuery w = Inr results" "w_allChunksQuery w = Inr allChunks"
    and "findSimilarEmbeddings (w_JSON_parse w) results (b_targetTokens b)
           (w_preprocessQuery w (b_query b)) = Inr sim" "sim \<noteq> []"
    and "processedChunks (w_JSON_parse w) (b_maxChunksPerPaper b) sim = Inr processed"
    and "w_generateResponse w (context_of (w_chunkText w)
           (maxContextTokens (selectedComplexity (b_complexity b))) processed) = Inr init"
    and "\<forall>x. w_store_throws w x = None"
    and "getQueryJob (b_jobId b) tbl = Some j"
  shows "\<exists>j'. getQueryJob (b_jobId b) (handler w b tbl) = Some j'
     \<and> status j' = Completed \<and> error j' = error j
     \<and> params_enableVerification j' = params_enableVerification j
     \<and> expiresAt j' = expiresAt j
     \<and> response j' = Some (res_response (final_results (w_extractCitedSources w)
          (b_enableVerification b) (w_verification w) init sim (matchingChunks_of b allChunks)))
     \<and> confidence j' = map_option decimal (res_confidence (final_results (w_extractCitedSources w)
          (b_enableVerification b) (w_verification w) init sim (matchingChunks_of b allChunks)))"
proof -
  let ?R = "final_results (w_extractCitedSources w) (b_enableVerification b) (w_verification w)
              init sim (matchingChunks_of b allChunks)"
  obtain cf where cf: "res_confidence ?R = Some cf"
    by (simp add: final_results_def Let_def)
  show ?thesis
    unfolding handler_def handler_steps_success [OF assms(1-8)] exec_writes [OF assms(9)]
    using assms(10) cf
    by (cases "b_enableVerification b")
       (simp_all add: getQueryJob_updateJobProgress getQueryJob_storeJobResults)
qed

lemma final_results_verification:
  "final_results extract True call init sim m =
     \<lparr> res_response = fst (verifyResponse init call), res_sources = sources_of sim,
       res_allMatchingChunks =
         Some (display_chunks sim (extract (fst (verifyResponse init call)) sim) m),
       res_confidence = Some (snd (verifyResponse init call)), res_verified = Some True \<rparr>"
  by (simp add: final_results_def Let_def)

lemma final_results_no_verification:
  "final_results extract False call init sim m =
     \<lparr> res_response = init, res_sources = sources_of sim,
       res_allMatchingChunks = Some (display_chunks sim (extract init sim) m),
       res_confidence = Some 85, res_verified = Some False \<rparr>"
  by (simp add: final_results_def Let_def)

lemmas handler_eval =
  example_world_def example_body_def example_row_def example_match_def
  findSimilarEmbeddings_def matchingChunks_of_def verification_failed_def unparsable_def
  verifiedMatch_def getQueryJob_def new_job_def

lemmas run_eval =
  handler_def handler_steps_def tail_steps_def processing_def empty_results_def
  display_chunks_unused_def query_handler_tail_def

text \<open>
  C9, as stated, fails for a reply that can be parsed with one marker only. A reply
  \<open>CONFIDENCE: 90\<close> has no \<open>VERIFIED_RESPONSE:\<close> part: the job is completed with the
  unverified answer and confidence 90, not 50. A reply with a \<open>VERIFIED_RESPONSE:\<close> part
  and a confidence that is not a number gives confidence 50 with the verifier's text in
  place of the unverified answer.
\<close>

theorem one_marker_reply_not_neutral:
  "verifiedMatch ''CONFIDENCE: 90'' = None
   \<and> verifyResponse ''draft'' (Reply ''CONFIDENCE: 90'') = (''draft'', 90)
   \<and> map (\<lambda>j. (status j, response j, confidence j))
       (handler (example_world (Inr [example_row ''first'' ''1'' 0.9]) (Reply ''CONFIDENCE: 90''))
          (example_body True) [new_job ''j'' 0 True])
     = [(Completed, Some ''draft'', Some ''90'')]
   \<and> confidenceMatch ''VERIFIED_RESPONSE: checked CONFIDENCE: high'' = None
   \<and> verifyResponse ''draft'' (Reply ''VERIFIED_RESPONSE: checked CONFIDENCE: high'')
     = (''checked'', 50)"
  by (simp add: run_eval handler_eval store_eval group_eval display_eval verifyResponse_def
        is_space_def is_digit_def nat_of_digits_def trim_def decimal_90
        maxContextTokens_def selectedComplexity_def)

text \<open>
  C9, amended. With verification enabled, a run in which everything else succeeds
  (registry, embedding, both corpus queries with at least one retrieved chunk, grouping,
  generation giving \<open>init\<close>, and the store's writes) leaves the job \<open>completed\<close>, its error
  column untouched, whatever the verification call comes to. When the call fails (\<open>fetch\<close>
  rejects, which includes the abort after the timeout), answers with a non-success
  status, returns a body that cannot be used, or returns a reply in which neither marker
  pattern matches, the job has the unverified answer \<open>init\<close> and confidence 50. When a
  reply arrives, each marker falls back on its own: without a \<open>VERIFIED_RESPONSE:\<close> match
  the answer is \<open>init\<close>, without a \<open>CONFIDENCE:\<close> match the confidence is 50. The job's row
  has no \<open>verified\<close> column; for a job created with verification enabled the status
  endpoint, asked before the job expires, reports \<open>verified = true\<close> with that answer and
  confidence, and the synchronous endpoint on the same retrieval answers 200 with
  \<open>verified = true\<close>, that answer and that confidence.
\<close>

theorem verification_never_fails_job:
  assumes "b_enableVerification b" "params_enableVerification j"
    and "w_ragError w = None" "w_embeddingError w = None"
    and "w_similarQuery w = Inr results" "w_allChunksQuery w = Inr allChunks"
    and "findSimilarEmbeddings (w_JSON_parse w) results (b_targetTokens b)
           (w_preprocessQuery w (b_query b)) = Inr sim" "sim \<noteq> []"
    and "processedChunks (w_JSON_parse w) (b_maxChunksPerPaper b) sim = Inr processed"
    and "w_generateResponse w (context_of (w_chunkText w)
           (maxContextTokens (selectedComplexity (b_complexity b))) processed) = Inr init"
    and "\<forall>x. w_store_throws w x = None"
    and "getQueryJob (b_jobId b) tbl = Some j" "now \<le> expiresAt j"
  shows "(\<exists>j'. getQueryJob (b_jobId b) (handler w b tbl) = Some j'
       \<and> status j' = Completed \<and> error j' = error j
       \<and> response j' = Some (fst (verifyResponse init (w_verification w)))
       \<and> confidence j' = Some (decimal (snd (verifyResponse init (w_verification w)))))
     \<and> query_status now (b_jobId b) (handler w b tbl) =
         Completed_200
           \<lparr> cb_response = Some (fst (verifyResponse init (w_verification w))),
             cb_confidence = Some (snd (verifyResponse init (w_verification w))),
             cb_verified = True \<rparr>
     \<and> query_handler_tail w True (b_maxChunksPerPaper b)
         (maxContextTokens (selectedComplexity (b_complexity b))) sim
         (matchingChunks_of b allChunks) =
         (200, Some
           \<lparr> res_response = fst (verifyResponse init (w_verification w)),
             res_sources = sources_of sim,
             res_allMatchingChunks =
               Some (display_chunks sim
                 (w_extractCitedSources w (fst (verifyResponse init (w_verification w))) sim)
                 (matchingChunks_of b allChunks)),
             res_confidence = Some (snd (verifyResponse init (w_verification w))),
             res_verified = Some True \<rparr>)
     \<and> (verification_failed (w_verification w) \<longrightarrow>
          verifyResponse init (w_verification w) = (init, 50))
     \<and> (\<forall>reply. w_verification w = Reply reply \<longrightarrow>
          (verifiedMatch reply = None \<longrightarrow> fst (verifyResponse init (w_verification w)) = init)
          \<and> (confidenceMatch reply = None \<longrightarrow>
                snd (verifyResponse init (w_verification w)) = 50))"
proof -
  let ?v = "verifyResponse init (w_verification w)"
  have R: "final_results (w_extractCitedSources w) (b_enableVerification b) (w_verification w)
             init sim (matchingChunks_of b allChunks) =
           \<lparr> res_response = fst ?v, res_sources = sources_of sim,
             res_allMatchingChunks = Some (display_chunks sim
                (w_extractCitedSources w (fst ?v) sim) (matchingChunks_of b allChunks)),
             res_confidence = Some (snd ?v), res_verified = Some True \<rparr>"
    using assms(1) by (simp add: final_results_verification)
  from handler_success [OF assms(3-12)] obtain j' where
    j': "getQueryJob (b_jobId b) (handler w b tbl) = Some j'"
      "status j' = Completed" "error j' = error j"
      "params_enableVerification j' = params_enableVerification j"
      "expiresAt j' = expiresAt j"
      "response j' = Some (fst ?v)" "confidence j' = Some (decimal (snd ?v))"
    unfolding R by auto
  have job: "\<exists>j'. getQueryJob (b_jobId b) (handler w b tbl) = Some j'
       \<and> status j' = Completed \<and> error j' = error j
       \<and> response j' = Some (fst ?v) \<and> confidence j' = Some (decimal (snd ?v))"
    using j' by blast
  have ne: "decimal (snd ?v) \<noteq> []" using decimal_digits by blast
  have st: "query_status now (b_jobId b) (handler w b tbl) =
         Completed_200 \<lparr> cb_response = Some (fst ?v), cb_confidence = Some (snd ?v),
                         cb_verified = True \<rparr>"
    using j' assms(2,13) ne by (simp add: query_status_def parseFloat_digits_decimal)
  have sync: "query_handler_tail w True (b_maxChunksPerPaper b)
         (maxContextTokens (selectedComplexity (b_complexity b))) sim
         (matchingChunks_of b allChunks) =
         (200, Some
           \<lparr> res_response = fst ?v, res_sources = sources_of sim,
             res_allMatchingChunks = Some (display_chunks sim
                (w_extractCitedSources w (fst ?v) sim) (matchingChunks_of b allChunks)),
             res_confidence = Some (snd ?v), res_verified = Some True \<rparr>)"
    using assms(8,9,10) by (simp add: query_handler_tail_def final_results_verification)
  have failed: "verification_failed (w_verification w) \<longrightarrow> ?v = (init, 50)"
    by (simp add: verifyResponse_failed)
  have each: "\<forall>reply. w_verification w = Reply reply \<longrightarrow>
          (verifiedMatch reply = None \<longrightarrow> fst ?v = init)
          \<and> (confidenceMatch reply = None \<longrightarrow> snd ?v = 50)"
    by (simp add: verifyResponse_Reply)
  show ?thesis using job st sync failed each by blast
qed

theorem verification_never_fails_job_witness:
  "b_enableVerification (example_body True)
   \<and> params_enableVerification (new_job ''j'' 0 True)
   \<and> processedChunks example_JSON_parse (Some 2) [example_row ''first'' ''1'' 0.9]
        = Inr [example_row ''first'' ''1'' 0.9]
   \<and> getQueryJob ''j'' [new_job ''j'' 0 True] = Some (new_job ''j'' 0 True)
   \<and> (20 :: int) \<le> expiresAt (new_job ''j'' 0 True)
   \<and> verification_failed (Reply ''The answer looks fine.'')
   \<and> verifiedMatch ''The answer looks fine.'' = None
   \<and> confidenceMatch ''The answer looks fine.'' = None
   \<and> verifyResponse ''draft'' (Reply ''The answer looks fine.'') = (''draft'', 50)
   \<and> (\<exists>j'. getQueryJob ''j''
          (handler (example_world (Inr [example_row ''first'' ''1'' 0.9]) (Reply ''The answer looks fine.''))
             (example_body True) [new_job ''j'' 0 True]) = Some j'
        \<and> status j' = Completed \<and> error j' = None
        \<and> response j' = Some ''draft'' \<and> confidence j' = Some ''50'')
   \<and> query_status 20 ''j''
        (handler (example_world (Inr [example_row ''first'' ''1'' 0.9]) (Reply ''The answer looks fine.''))
           (example_body True) [new_job ''j'' 0 True])
      = Completed_200 \<lparr> cb_response = Some ''draft'', cb_confidence = Some 50, cb_verified = True \<rparr>"
  using verification_never_fails_job
    [of "example_body True" "new_job ''j'' 0 True"
        "example_world (Inr [example_row ''first'' ''1'' 0.9]) (Reply ''The answer looks fine.'')"
        "[example_row ''first'' ''1'' 0.9]" "[example_match 7 ''second'' ''1'' 0.8]"
        "[example_row ''first'' ''1'' 0.9]" "[example_row ''first'' ''1'' 0.9]" "''draft''"
        "[new_job ''j'' 0 True]" 20]
  by (simp add: handler_eval group_eval verifyResponse_def decimal_50)

text \<open>
  C10, amended. With verification off, a run that retrieves at least one chunk and in which
  everything else succeeds leaves the job \<open>completed\<close> with confidence 85, and every 200
  body of the synchronous endpoint on that path has confidence 85. A job completed on the
  path without retrieved chunks carries no confidence.
\<close>

theorem confidence_85_without_verification:
  assumes "\<not> b_enableVerification b"
    and "w_ragError w = None" "w_embeddingError w = None"
    and "w_similarQuery w = Inr results" "w_allChunksQuery w = Inr allChunks"
    and "findSimilarEmbeddings (w_JSON_parse w) results (b_targetTokens b)
           (w_preprocessQuery w (b_query b)) = Inr sim" "sim \<noteq> []"
    and "processedChunks (w_JSON_parse w) (b_maxChunksPerPaper b) sim = Inr processed"
    and "w_generateResponse w (context_of (w_chunkText w)
           (maxContextTokens (selectedComplexity (b_complexity b))) processed) = Inr init"
    and "\<forall>x. w_store_throws w x = None"
    and "getQueryJob (b_jobId b) tbl = Some j"
  shows "(\<exists>j'. getQueryJob (b_jobId b) (handler w b tbl) = Some j'
       \<and> status j' = Completed \<and> response j' = Some init \<and> confidence j' = Some ''85'')
     \<and> (\<forall>cap mt r. query_handler_tail w False cap mt sim (matchingChunks_of b allChunks) = (200, Some r)
          \<longrightarrow> res_confidence r = Some 85)"
proof -
  have job: "\<exists>j'. getQueryJob (b_jobId b) (handler w b tbl) = Some j'
       \<and> status j' = Completed \<and> response j' = Some init \<and> confidence j' = Some ''85''"
    using handler_success [OF assms(2-11)] assms(1)
    by (auto simp: final_results_no_verification decimal_85)
  have sync: "res_confidence r = Some 85"
    if "query_handler_tail w False cap mt sim (matchingChunks_of b allChunks) = (200, Some r)"
    for cap mt r
    using that assms(7)
    by (auto simp: query_handler_tail_def final_results_no_verification split: sum.splits)
  show ?thesis using job sync by simp
qed

theorem confidence_85_without_verification_witness:
  "\<not> b_enableVerification (example_body False)
   \<and> processedChunks example_JSON_parse (Some 2) [example_row ''first'' ''1'' 0.9]
        = Inr [example_row ''first'' ''1'' 0.9]
   \<and> getQueryJob ''j'' [new_job ''j'' 0 False] = Some (new_job ''j'' 0 False)
   \<and> (\<exists>j'. getQueryJob ''j''
          (handler (example_world (Inr [example_row ''first'' ''1'' 0.9]) FetchRejects)
             (example_body False) [new_job ''j'' 0 False]) = Some j'
        \<and> status j' = Completed \<and> response j' = Some ''draft'' \<and> confidence j' = Some ''85'')"
  using confidence_85_without_verification
    [of "example_body False"
        "example_world (Inr [example_row ''first'' ''1'' 0.9]) FetchRejects"
        "[example_row ''first'' ''1'' 0.9]" "[example_match 7 ''second'' ''1'' 0.8]"
        "[example_row ''first'' ''1'' 0.9]" "[example_row ''first'' ''1'' 0.9]" "''draft''"
        "[new_job ''j'' 0 False]" "new_job ''j'' 0 False"]
  by (simp add: handler_eval group_eval)

text \<open>
  C10, as stated, fails when nothing is retrieved: the background handler completes the
  job with the fixed answer and no confidence, and the synchronous endpoint answers 200
  with a body that has no confidence.
\<close>

theorem completed_without_confidence_on_empty_retrieval:
  "map (\<lambda>j. (status j, response j, confidence j))
     (handler (example_world (Inr []) FetchRejects) (example_body False) [new_job ''j'' 0 False])
     = [(Completed, Some no_results_message, None)]
   \<and> map_prod id (map_option res_confidence)
       (query_handler_tail (example_world (Inr []) FetchRejects) False (Some 2) (Some 5000) []
          [example_match 7 ''second'' ''1'' 0.8])
     = (200, Some None)"
  by (simp add: run_eval handler_eval store_eval)


section \<open>Properties of the submission guard\<close>

lemmas validate_eval =
  validateAndSanitizeInput_def query_errors_def ragId_errors_def targetTokens_errors_def
  detectSuspiciousContent_def SUSPICIOUS_PATTERNS_def BLOCKED_TERMS_def toLowerCase_def
  control_character_def trim_def is_space_def parseInt_def parseInt_number_def
  MAX_QUERY_LENGTH_def MIN_TARGET_TOKENS_def MAX_TARGET_TOKENS_def DEFAULT_TARGET_TOKENS_def
  example_input_def Let_def

lemma example_accepted: "isValid (validateAndSanitizeInput (Some (example_input cap vw)))"
  by (simp add: validate_eval)

lemma parseInt_number_of_int:
  "\<bar>k\<bar> < 10 ^ 21 \<Longrightarrow> parseInt_number (of_int k) = k"
proof -
  assume b: "\<bar>k\<bar> < 10 ^ 21"
  have lt: "\<bar>real_of_int k\<bar> < 10 ^ 21"
  proof -
    have "real_of_int \<bar>k\<bar> < real_of_int (10 ^ 21)" using b by (simp only: of_int_less_iff)
    then show ?thesis by simp
  qed
  show ?thesis
  proof (cases "k = 0")
    case True then show ?thesis by (simp add: parseInt_number_def)
  next
    case False
    then have "(1::int) \<le> \<bar>k\<bar>" by simp
    then have "real_of_int 1 \<le> real_of_int \<bar>k\<bar>" by (simp only: of_int_le_iff)
    then have "1 \<le> \<bar>real_of_int k\<bar>" by simp
    then have ge: "1 / 10 ^ 6 \<le> \<bar>real_of_int k\<bar>" by simp
    have fl: "\<lfloor>\<bar>real_of_int k\<bar>\<rfloor> = \<bar>k\<bar>" by (metis floor_of_int of_int_abs)
    show ?thesis using False ge lt fl by (simp add: parseInt_number_def)
  qed
qed


text \<open>Within the range of plain decimal notation \<open>parseInt\<close> is the integer part.\<close>

lemma parseInt_number_plain:
  "1 / 10 ^ 6 \<le> \<bar>r\<bar> \<Longrightarrow> \<bar>r\<bar> < 10 ^ 21 \<Longrightarrow> parseInt_number r = integer_part r"
  by (auto simp: parseInt_number_def integer_part_def)

text \<open>Outside it, \<open>parseInt\<close> is a single digit.\<close>

lemma parseInt_number_exponent:
  assumes "r \<noteq> 0" "\<not> (1 / 10 ^ 6 \<le> \<bar>r\<bar> \<and> \<bar>r\<bar> < 10 ^ 21)"
  shows "\<bar>parseInt_number r\<bar> < 10"
proof -
  let ?x = "\<bar>r\<bar>"
  let ?e = "real_of_int \<lfloor>log 10 ?x\<rfloor>"
  have pos: "0 < ?x" using assms(1) by simp
  have lo: "?e \<le> log 10 ?x" by simp
  have hi: "log 10 ?x < ?e + 1" by linarith
  have p: "0 < 10 powr ?e" by simp
  have "10 powr ?e \<le> ?x"
    by (rule iffD1 [OF le_log_iff [of 10 ?x ?e]]) (use pos lo in simp_all)
  then have ge: "1 \<le> ?x / 10 powr ?e" using p by (simp add: field_simps)
  have "?x < 10 powr (?e + 1)"
    by (rule iffD1 [OF log_less_iff [of 10 ?x "?e + 1"]]) (use pos hi in simp_all)
  also have "\<dots> = 10 powr ?e * 10" by (simp add: powr_add)
  finally have lt: "?x / 10 powr ?e < 10" using p by (simp add: field_simps)
  define q where "q = \<lfloor>?x / 10 powr ?e\<rfloor>"
  have f0: "0 \<le> q" unfolding q_def using ge by simp
  have f9: "q < 10" unfolding q_def using lt by (simp add: floor_less_iff)
  have "parseInt_number r = (if r < 0 then - q else q)"
    using assms unfolding parseInt_number_def q_def by (simp only: if_False)
  then show ?thesis using f0 f9 by (simp split: if_splits)
qed

lemma or_default_clamp_real:
  "r \<noteq> 0 \<Longrightarrow> min (max (or_default (Some r) d) lo) hi = clamp lo hi (r::real)"
  by (simp add: or_default_def clamp_def)

lemma or_default_clamp_int:
  "k \<noteq> 0 \<Longrightarrow> min (max (or_default (Some k) d) lo) hi = clamp lo hi (k::int)"
  by (simp add: or_default_def clamp_def)

lemma accepted_targetTokens:
  assumes "isValid (validateAndSanitizeInput (Some input))" "in_targetTokens input = Some r"
  shows "100 \<le> parseInt_number r \<and> parseInt_number r \<le> 10000"
  using assms
  by (auto simp: validateAndSanitizeInput_def Let_def targetTokens_errors_def parseInt_def
        MIN_TARGET_TOKENS_def MAX_TARGET_TOKENS_def split: if_splits)

text \<open>
  C8, amended. For every request that validation accepts, each sanitized knob lies in its
  range: the cap in [1,10], the target tokens in [100,10000], the threshold in [0.1,1],
  each weight in [0,1]. A threshold or weight given as a number other than zero is that
  number clamped into its range. The cap and the target tokens are read with \<open>parseInt\<close>
  from the number's text, which for a number of size at least \<open>10^-6\<close> and below \<open>10^21\<close>
  gives its integer part. A cap for which \<open>parseInt\<close> gives a number other than zero is
  that number clamped into [1,10]: for a cap of size at least 1 and below \<open>10^21\<close> the
  integer part clamped, and for a whole number other than zero and below \<open>10^21\<close> in size
  the number itself, clamped. The target tokens, which validation has already confined
  to the range, are the integer part of the number given: for a whole number the number
  itself. An absent knob takes its default: 3, 1500, 0.3, 0.7 and 0.3.
\<close>

theorem sanitized_knobs:
  assumes "isValid (validateAndSanitizeInput (Some input))"
  shows "sanitized (validateAndSanitizeInput (Some input)) = Some (sanitize input)
    \<and> 1 \<le> maxChunksPerPaper (sanitize input) \<and> maxChunksPerPaper (sanitize input) \<le> 10
    \<and> 100 \<le> targetTokens (sanitize input) \<and> targetTokens (sanitize input) \<le> 10000
    \<and> 0.1 \<le> similarityThreshold (sanitize input) \<and> similarityThreshold (sanitize input) \<le> 1
    \<and> 0 \<le> vectorWeight (sanitize input) \<and> vectorWeight (sanitize input) \<le> 1
    \<and> 0 \<le> textWeight (sanitize input) \<and> textWeight (sanitize input) \<le> 1
    \<and> (\<forall>r. in_maxChunksPerPaper input = Some r \<and> parseInt_number r \<noteq> 0 \<longrightarrow>
           maxChunksPerPaper (sanitize input) = clamp 1 10 (parseInt_number r))
    \<and> (\<forall>r. in_maxChunksPerPaper input = Some r \<and> 1 \<le> \<bar>r\<bar> \<and> \<bar>r\<bar> < 10 ^ 21 \<longrightarrow>
           maxChunksPerPaper (sanitize input) = clamp 1 10 (integer_part r))
    \<and> (\<forall>k. in_maxChunksPerPaper input = Some (of_int k) \<and> k \<noteq> 0 \<and> \<bar>k\<bar> < 10 ^ 21 \<longrightarrow>
           maxChunksPerPaper (sanitize input) = clamp 1 10 k)
    \<and> (\<forall>r. in_targetTokens input = Some r \<longrightarrow>
           targetTokens (sanitize input) = clamp 100 10000 (parseInt_number r)
           \<and> targetTokens (sanitize input) = parseInt_number r
           \<and> targetTokens (sanitize input) = integer_part r)
    \<and> (\<forall>k. in_targetTokens input = Some (of_int k) \<longrightarrow>
           targetTokens (sanitize input) = clamp 100 10000 k
           \<and> targetTokens (sanitize input) = k)
    \<and> (\<forall>r. in_similarityThreshold input = Some r \<and> r \<noteq> 0 \<longrightarrow>
           similarityThreshold (sanitize input) = clamp 0.1 1 r)
    \<and> (\<forall>r. in_vectorWeight input = Some r \<and> r \<noteq> 0 \<longrightarrow>
           vectorWeight (sanitize input) = clamp 0 1 r)
    \<and> (\<forall>r. in_textWeight input = Some r \<and> r \<noteq> 0 \<longrightarrow>
           textWeight (sanitize input) = clamp 0 1 r)
    \<and> (in_maxChunksPerPaper input = None \<longrightarrow> maxChunksPerPaper (sanitize input) = 3)
    \<and> (in_targetTokens input = None \<longrightarrow> targetTokens (sanitize input) = 1500)
    \<and> (in_similarityThreshold input = None \<longrightarrow> similarityThreshold (sanitize input) = 0.3)
    \<and> (in_vectorWeight input = None \<longrightarrow> vectorWeight (sanitize input) = 0.7)
    \<and> (in_textWeight input = None \<longrightarrow> textWeight (sanitize input) = 0.3)"
proof -
  have s: "sanitized (validateAndSanitizeInput (Some input)) = Some (sanitize input)"
    by (simp add: validateAndSanitizeInput_def Let_def)
  have ranges: "1 \<le> maxChunksPerPaper (sanitize input) \<and> maxChunksPerPaper (sanitize input) \<le> 10
    \<and> 100 \<le> targetTokens (sanitize input) \<and> targetTokens (sanitize input) \<le> 10000
    \<and> 0.1 \<le> similarityThreshold (sanitize input) \<and> similarityThreshold (sanitize input) \<le> 1
    \<and> 0 \<le> vectorWeight (sanitize input) \<and> vectorWeight (sanitize input) \<le> 1
    \<and> 0 \<le> textWeight (sanitize input) \<and> textWeight (sanitize input) \<le> 1"
    by (simp add: sanitize_def MIN_TARGET_TOKENS_def MAX_TARGET_TOKENS_def)
  have cap: "maxChunksPerPaper (sanitize input) = clamp 1 10 (parseInt_number r)"
    if "in_maxChunksPerPaper input = Some r" "parseInt_number r \<noteq> 0" for r
    using that by (simp add: sanitize_def parseInt_def or_default_clamp_int)
  have capr: "maxChunksPerPaper (sanitize input) = clamp 1 10 (integer_part r)"
    if "in_maxChunksPerPaper input = Some r" "1 \<le> \<bar>r\<bar>" "\<bar>r\<bar> < 10 ^ 21" for r
  proof -
    have small: "1 / 10 ^ 6 \<le> \<bar>r\<bar>" using that(2) by simp
    have eq: "parseInt_number r = integer_part r"
      using small that(3) by (rule parseInt_number_plain)
    have "integer_part r \<noteq> 0"
      using that(2) by (auto simp: integer_part_def abs_if floor_eq_iff split: if_splits)
    then show ?thesis using cap [OF that(1)] eq by simp
  qed
  have capk: "maxChunksPerPaper (sanitize input) = clamp 1 10 k"
    if "in_maxChunksPerPaper input = Some (of_int k)" "k \<noteq> 0" "\<bar>k\<bar> < 10 ^ 21" for k
    using cap [OF that(1)] that(2,3) by (simp add: parseInt_number_of_int)
  have tok: "targetTokens (sanitize input) = clamp 100 10000 (parseInt_number r)
           \<and> targetTokens (sanitize input) = parseInt_number r
           \<and> targetTokens (sanitize input) = integer_part r"
    if "in_targetTokens input = Some r" for r
  proof -
    note acc = accepted_targetTokens [OF assms that]
    have plain: "1 / 10 ^ 6 \<le> \<bar>r\<bar> \<and> \<bar>r\<bar> < 10 ^ 21"
    proof (rule ccontr)
      assume n: "\<not> (1 / 10 ^ 6 \<le> \<bar>r\<bar> \<and> \<bar>r\<bar> < 10 ^ 21)"
      have "r \<noteq> 0" using acc by (auto simp: parseInt_number_def)
      from parseInt_number_exponent [OF this n] acc show False by simp
    qed
    then have "parseInt_number r = integer_part r" by (simp add: parseInt_number_plain)
    then show ?thesis
      using acc that
      by (simp add: sanitize_def parseInt_def or_default_def clamp_def
            MIN_TARGET_TOKENS_def MAX_TARGET_TOKENS_def)
  qed
  have tokk: "targetTokens (sanitize input) = clamp 100 10000 k
           \<and> targetTokens (sanitize input) = k"
    if "in_targetTokens input = Some (of_int k)" for k
  proof -
    have "integer_part (of_int k) = k" by (simp add: integer_part_def)
    with tok [OF that] have eq: "targetTokens (sanitize input) = k" by simp
    then show ?thesis using ranges by (simp add: clamp_def)
  qed
  have th: "similarityThreshold (sanitize input) = clamp 0.1 1 r"
    if "in_similarityThreshold input = Some r" "r \<noteq> 0" for r
    using that by (simp add: sanitize_def parseFloat_def or_default_clamp_real)
  have vw: "vectorWeight (sanitize input) = clamp 0 1 r"
    if "in_vectorWeight input = Some r" "r \<noteq> 0" for r
    using that by (simp add: sanitize_def parseFloat_def or_default_clamp_real)
  have tw: "textWeight (sanitize input) = clamp 0 1 r"
    if "in_textWeight input = Some r" "r \<noteq> 0" for r
    using that by (simp add: sanitize_def parseFloat_def or_default_clamp_real)
  have dflt: "(in_maxChunksPerPaper input = None \<longrightarrow> maxChunksPerPaper (sanitize input) = 3)
    \<and> (in_targetTokens input = None \<longrightarrow> targetTokens (sanitize input) = 1500)
    \<and> (in_similarityThreshold input = None \<longrightarrow> similarityThreshold (sanitize input) = 0.3)
    \<and> (in_vectorWeight input = None \<longrightarrow> vectorWeight (sanitize input) = 0.7)
    \<and> (in_textWeight input = None \<longrightarrow> textWeight (sanitize input) = 0.3)"
    by (simp add: sanitize_def parseInt_def parseFloat_def or_default_def
          MIN_TARGET_TOKENS_def MAX_TARGET_TOKENS_def DEFAULT_TARGET_TOKENS_def)
  show ?thesis using s ranges cap capr capk tok tokk th vw tw dflt by blast
qed

theorem sanitized_knobs_witness:
  "isValid (validateAndSanitizeInput (Some (example_input (Some 4) (Some (1/2)))))
   \<and> maxChunksPerPaper (sanitize (example_input (Some 4) (Some (1/2)))) = clamp 1 10 4
   \<and> targetTokens (sanitize (example_input (Some 4) (Some (1/2)))) = clamp 100 10000 600
   \<and> similarityThreshold (sanitize (example_input (Some 4) (Some (1/2)))) = clamp 0.1 1 0.5
   \<and> vectorWeight (sanitize (example_input (Some 4) (Some (1/2)))) = clamp 0 1 (1/2)
   \<and> textWeight (sanitize (example_input (Some 4) (Some (1/2)))) = 0.3"
  using sanitized_knobs [of "example_input (Some 4) (Some (1/2))"]
  by (simp add: validate_eval sanitize_def or_default_def parseFloat_def clamp_def)

text \<open>
  C8, as stated, fails for a cap that is not whole: the accepted request with cap 2.5 is
  sanitized to cap 2, while 2.5 clamped into [1,10] is 2.5.
\<close>

theorem fractional_cap_truncated:
  "isValid (validateAndSanitizeInput (Some (example_input (Some (5/2)) None)))
   \<and> map_option maxChunksPerPaper
        (sanitized (validateAndSanitizeInput (Some (example_input (Some (5/2)) None)))) = Some 2
   \<and> clamp 1 10 (5/2 :: real) = 5/2"
  by (simp add: validate_eval sanitize_def or_default_def clamp_def)

text \<open>The text of \<open>10^21\<close> is \<open>1e+21\<close>, of which \<open>parseInt\<close> reads the 1: for a whole-number
  cap the bound \<open>10^21\<close> is needed.\<close>

lemma parseInt_number_1e21: "parseInt_number (10 ^ 21) = 1"
proof -
  have l: "log 10 (10 ^ 21 :: real) = 21"
    using log_pow_cancel [of 10 21] by simp
  have p: "(10::real) powr 21 = 10 ^ 21"
    using powr_realpow [of 10 21] by simp
  have a: "\<bar>10 ^ 21 :: real\<bar> = 10 ^ 21" by simp
  show ?thesis
    unfolding parseInt_number_def a l by (simp add: p)
qed

lemma cap_1e21:
  "isValid (validateAndSanitizeInput (Some (example_input (Some (10 ^ 21)) None)))
   \<and> maxChunksPerPaper (sanitize (example_input (Some (10 ^ 21)) None)) = 1
   \<and> clamp 1 10 (10 ^ 21 :: int) = 10"
proof -
  have n: "parseInt_number 1000000000000000000000 = 1"
    using parseInt_number_1e21 by simp
  show ?thesis
    using example_accepted [of "Some (10 ^ 21)" None]
    by (simp add: sanitize_def parseInt_def or_default_def n clamp_def example_input_def)
qed

text \<open>A knob given as zero is taken as missing (\<open>x || default\<close>): the vector weight 0 of
  an accepted request becomes 0.7.\<close>

lemma zero_weight_replaced_by_default:
  "isValid (validateAndSanitizeInput (Some (example_input None (Some 0))))
   \<and> vectorWeight (sanitize (example_input None (Some 0))) = 0.7
   \<and> clamp 0 1 (0::real) = 0"
  by (simp add: validate_eval sanitize_def or_default_def parseFloat_def clamp_def)


end
